theory Spec2Isabelle
  imports Complex_Main "HOL-Library.FSet"
begin

section \<open>Data model\<close>

text \<open>
  Python exceptions that the modelled code can raise. A function that may raise returns
  \<open>exn + 'a\<close>, with \<open>Inl\<close> for the exception.
\<close>

datatype exn = IndexError | KeyError | TypeError | AttributeError | ZeroDivisionError | ValueError
  | DatabaseError

text \<open>
  A party of a transaction: the string \<open>"Network"\<close> (the sender of a mining reward) or a
  node id. Node ids are Python ints (the simulation numbers its nodes \<open>0 .. N-1\<close>).
\<close>

datatype party = Network | NodeId int

text \<open>Timestamps are seconds as returned by \<open>time.time()\<close>; no claim does arithmetic on them.\<close>

type_synonym timestamp = rat

text \<open>
  \<open>core/transaction.py\<close>, class \<open>Transaction\<close>. The record stands both for the object and
  for its \<open>__dict__\<close> (the wire form): they carry the same five fields, and
  \<open>Block.compute_hash\<close> turns the object into that dictionary before hashing. A dictionary
  that arrives from the wire may lack the \<open>tx_hash\<close> key: the node reads it with
  \<open>.get("tx_hash")\<close> in one place and with \<open>tx["tx_hash"]\<close>, which raises \<open>KeyError\<close>, in
  another. \<open>None\<close> in the field stands for the absent key.
\<close>

record transaction =
  sender :: party
  receiver :: party
  amount :: int
  tx_timestamp :: timestamp
  tx_hash :: "string option"

text \<open>
  \<open>core/block.py\<close>, class \<open>Block\<close>; the record also stands for the block dictionary
  \<open>{index, previous_hash, transactions, timestamp, nonce, hash}\<close> of the wire protocol.
\<close>

record block =
  index :: int
  previous_hash :: string
  transactions :: "transaction list"
  timestamp :: timestamp
  nonce :: int
  hash :: string

text \<open>
  What \<open>Block.compute_hash\<close> serialises: every field of the block except \<open>hash\<close>, in the
  order of the sorted keys (index, nonce, previous_hash, timestamp, transactions).
\<close>

type_synonym block_data = "int \<times> int \<times> string \<times> timestamp \<times> transaction list"

text \<open>What \<open>Transaction.compute_hash\<close> serialises (amount, receiver, sender, timestamp).\<close>

type_synonym tx_data = "int \<times> party \<times> party \<times> timestamp"

text \<open>
  The hashing library is not part of the repository. \<open>sha256_block\<close> stands for
  \<open>hashlib.sha256(json.dumps(block_data, sort_keys=True, default=str).encode()).hexdigest()\<close>
  and \<open>sha256_tx\<close> for the same composition on a transaction dictionary. Every definition
  takes them as a parameter, so every theorem holds for every hash function.
\<close>

record hashlib =
  sha256_block :: "block_data \<Rightarrow> string"
  sha256_tx :: "tx_data \<Rightarrow> string"

subsection \<open>Transaction and Block\<close>

definition tx_compute_hash :: "hashlib \<Rightarrow> party \<Rightarrow> party \<Rightarrow> int \<Rightarrow> timestamp \<Rightarrow> string" where
  "tx_compute_hash H s r a t = sha256_tx H (a, r, s, t)"

text \<open>
  \<open>Transaction.__init__\<close>: \<open>timestamp or time.time()\<close> takes the clock when the argument
  is \<open>None\<close> or zero; \<open>now\<close> is the clock reading.
\<close>

definition Transaction :: "hashlib \<Rightarrow> party \<Rightarrow> party \<Rightarrow> int \<Rightarrow> timestamp option \<Rightarrow> timestamp \<Rightarrow> transaction" where
  "Transaction H s r a ts now =
     (let t = (case ts of None \<Rightarrow> now | Some t' \<Rightarrow> if t' = 0 then now else t')
      in \<lparr>sender = s, receiver = r, amount = a, tx_timestamp = t,
          tx_hash = Some (tx_compute_hash H s r a t)\<rparr>)"

text \<open>\<open>Block.compute_hash\<close>: the \<open>hash\<close> key is popped before serialising.\<close>

definition compute_hash :: "hashlib \<Rightarrow> block \<Rightarrow> string" where
  "compute_hash H b =
     sha256_block H (index b, nonce b, previous_hash b, timestamp b, transactions b)"

text \<open>\<open>Block.__init__\<close> with an explicit timestamp: the hash is computed on construction.\<close>

definition Block :: "hashlib \<Rightarrow> int \<Rightarrow> string \<Rightarrow> transaction list \<Rightarrow> timestamp \<Rightarrow> int \<Rightarrow> block" where
  "Block H i p txs t n =
     (let b = \<lparr>index = i, previous_hash = p, transactions = txs, timestamp = t,
               nonce = n, hash = []\<rparr>
      in b\<lparr>hash := compute_hash H b\<rparr>)"

subsection \<open>Ledger (\<open>core/blockchain.py\<close>)\<close>

record blockchain =
  chain :: "block list"
  pending_transactions :: "transaction list"

definition create_genesis_block :: "hashlib \<Rightarrow> blockchain \<Rightarrow> blockchain" where
  "create_genesis_block H bc = bc\<lparr>chain := chain bc @ [Block H 0 ''0'' [] 0 0]\<rparr>"

text \<open>\<open>Blockchain.__init__\<close>.\<close>

definition Blockchain :: "hashlib \<Rightarrow> blockchain" where
  "Blockchain H = create_genesis_block H \<lparr>chain = [], pending_transactions = []\<rparr>"

text \<open>The property \<open>last_block\<close>: \<open>self.chain[-1]\<close> raises on an empty list.\<close>

definition last_block :: "blockchain \<Rightarrow> exn + block" where
  "last_block bc = (if chain bc = [] then Inl IndexError else Inr (last (chain bc)))"

definition add_transaction :: "transaction \<Rightarrow> blockchain \<Rightarrow> blockchain" where
  "add_transaction tx bc = bc\<lparr>pending_transactions := pending_transactions bc @ [tx]\<rparr>"

text \<open>
  \<open>Blockchain.add_block\<close>: the returned pair is the boolean result and the ledger after
  the call.
\<close>

definition add_block :: "hashlib \<Rightarrow> block \<Rightarrow> blockchain \<Rightarrow> exn + (bool \<times> blockchain)" where
  "add_block H b bc =
     (case last_block bc of
        Inl e \<Rightarrow> Inl e
      | Inr tip \<Rightarrow>
          if previous_hash b \<noteq> hash tip then Inr (False, bc)
          else if hash b \<noteq> compute_hash H b then Inr (False, bc)
          else Inr (True, bc\<lparr>chain := chain bc @ [b], pending_transactions := []\<rparr>))"

text \<open>
  \<open>Blockchain.mine_pending_transactions\<close>. \<open>now_tx\<close> and \<open>now_block\<close> are the two clock
  readings (the reward transaction's and the block's). The block's transaction list is the
  pending list itself, reward included. The result is the returned block and the ledger
  after the call; the value \<open>add_block\<close> returns is discarded, as in the source.
\<close>

definition mine_pending_transactions ::
  "hashlib \<Rightarrow> party \<Rightarrow> int \<Rightarrow> bool \<Rightarrow> timestamp \<Rightarrow> timestamp \<Rightarrow> blockchain \<Rightarrow> exn + (block \<times> blockchain)" where
  "mine_pending_transactions H miner_address n add_to_chain now_tx now_block bc =
     (let reward_transaction = Transaction H Network miner_address 1 None now_tx;
          bc1 = bc\<lparr>pending_transactions := pending_transactions bc @ [reward_transaction]\<rparr>
      in case last_block bc1 of
           Inl e \<Rightarrow> Inl e
         | Inr tip \<Rightarrow>
             (let new_block0 = Block H (int (length (chain bc1))) (hash tip)
                                 (pending_transactions bc1) now_block n;
                  new_block = new_block0\<lparr>hash := compute_hash H new_block0\<rparr>
              in if add_to_chain then
                   (case add_block H new_block bc1 of
                      Inl e \<Rightarrow> Inl e
                    | Inr (_, bc2) \<Rightarrow> Inr (new_block, bc2))
                 else Inr (new_block, bc1)))"

text \<open>\<open>Blockchain.is_chain_valid\<close>: the loop over \<open>range(1, len(chain))\<close>, as a recursion.\<close>

fun is_chain_valid_from :: "hashlib \<Rightarrow> block \<Rightarrow> block list \<Rightarrow> bool" where
  "is_chain_valid_from H previous [] = True"
| "is_chain_valid_from H previous (current # rest) =
     (if previous_hash current \<noteq> hash previous then False
      else if hash current \<noteq> compute_hash H current then False
      else is_chain_valid_from H current rest)"

definition is_chain_valid :: "hashlib \<Rightarrow> blockchain \<Rightarrow> bool" where
  "is_chain_valid H bc = (case chain bc of [] \<Rightarrow> True | g # rest \<Rightarrow> is_chain_valid_from H g rest)"

text \<open>A run of \<open>add_block\<close> calls, each on the ledger the previous one left.\<close>

fun add_blocks :: "hashlib \<Rightarrow> block list \<Rightarrow> blockchain \<Rightarrow> exn + blockchain" where
  "add_blocks H [] bc = Inr bc"
| "add_blocks H (b # bs) bc =
     (case add_block H b bc of Inl e \<Rightarrow> Inl e | Inr (_, bc') \<Rightarrow> add_blocks H bs bc')"

text \<open>
  The chain-integrity invariant of the specification: every block after the first links to
  its predecessor and carries its own recomputed hash.
\<close>

definition chain_integrity :: "hashlib \<Rightarrow> block list \<Rightarrow> bool" where
  "chain_integrity H c =
     (\<forall>i. 1 \<le> i \<and> i < length c \<longrightarrow>
        previous_hash (c ! i) = hash (c ! (i - 1)) \<and> hash (c ! i) = compute_hash H (c ! i))"

section \<open>Node runtime (\<open>core/node.py\<close>)\<close>

text \<open>
  A PBFT protocol message, the dictionary \<open>{type, view, seq, node_id, block, signature}\<close>
  of \<open>PbftConsensus.broadcast\<close>. The block may be absent (\<open>msg.get("block")\<close> is
  \<open>None\<close>); the other keys are always there in a message of the wire protocol.
\<close>

record pbft_msg =
  msg_type :: string
  msg_view :: int
  msg_seq :: int
  msg_node_id :: int
  msg_block :: "block option"
  msg_signature :: string

text \<open>
  A PoA or PoS message \<open>{block, signature, sender_id}\<close>; the handler reads every key with
  \<open>msg.get\<close>, so each may be absent.
\<close>

record validator_msg =
  vm_block :: "block option"
  vm_signature :: "string option"
  vm_sender_id :: "int option"

text \<open>
  The transport (\<open>core/network.py\<close>) is a collaborator of the node. The model keeps, for a
  node that has one, the calls the node made on it, oldest first.
\<close>

datatype net_call =
    Broadcast_transaction transaction
  | Broadcast_block block
  | Broadcast_pbft_message pbft_msg
  | Broadcast_poa_message validator_msg
  | Broadcast_pos_message validator_msg
  | Broadcast_sync_request int int
  | Send_sync_response int "block list"

text \<open>
  The monitoring sink (\<open>core/monitoring.py\<close>) likewise: the calls made on it, oldest
  first. \<open>Record_message node_id msg_type sent recv dropped\<close> is
  \<open>record_message(node_id, msg_type, sent=.., recv=.., dropped=..)\<close>. The sink writes to a
  database that is outside the model. Its methods catch their own exceptions, except
  \<open>record_block_committed\<close>, whose update of the node's row is outside any \<open>try\<close>: the
  functions that call it take a flag \<open>db_error\<close> that says whether that update raises.
\<close>

datatype mon_call =
    Record_message int string nat nat nat
  | Record_block_committed int "block option"
  | Record_block_produced int "int option"
  | Record_latency int
  | Record_pbft_prepare int int bool
  | Record_pbft_commit int int bool
  | Record_sync_event int int int
  | Record_fork_event int
  | Raise_alert int string

record node =
  node_id :: int
  blockchain :: blockchain
  mempool :: "transaction list"
  network :: "net_call list option"
  monitoring :: "mon_call list option"
  public_keys :: "int \<rightharpoonup> string"
  private_key :: string
  seen_transaction_hashes :: "string option set"
  seen_block_hashes :: "string set"
  trade_success_count :: int
  trade_failure_count :: int
  trade_confirmation_times :: "(string \<times> timestamp) list"
  withheld_block :: "block option"

text \<open>
  \<open>Node.__init__\<close>. The key pair comes from the cryptography library: \<open>priv\<close> and \<open>pem\<close>
  are the generated private key and the PEM of its public key. The transport is attached
  later, by \<open>start_network\<close>.
\<close>

definition Node :: "hashlib \<Rightarrow> int \<Rightarrow> mon_call list option \<Rightarrow> string \<Rightarrow> string \<Rightarrow> node" where
  "Node H nid mon priv pem =
     \<lparr>node_id = nid, blockchain = Blockchain H, mempool = [], network = None,
      monitoring = mon, public_keys = [nid \<mapsto> pem], private_key = priv,
      seen_transaction_hashes = {}, seen_block_hashes = {},
      trade_success_count = 0, trade_failure_count = 0, trade_confirmation_times = [],
      withheld_block = None\<rparr>"

definition start_network :: "node \<Rightarrow> node" where
  "start_network n = n\<lparr>network := Some []\<rparr>"

text \<open>\<open>if self.monitoring: self.monitoring.f(...)\<close>\<close>

definition monitor :: "mon_call \<Rightarrow> node \<Rightarrow> node" where
  "monitor c n = n\<lparr>monitoring := map_option (\<lambda>cs. cs @ [c]) (monitoring n)\<rparr>"

text \<open>\<open>if self.network: self.network.f(...)\<close>\<close>

definition transmit :: "net_call \<Rightarrow> node \<Rightarrow> node" where
  "transmit c n = n\<lparr>network := map_option (\<lambda>cs. cs @ [c]) (network n)\<rparr>"

definition log_trade_success :: "node \<Rightarrow> node" where
  "log_trade_success n = n\<lparr>trade_success_count := trade_success_count n + 1\<rparr>"

definition log_trade_failure :: "node \<Rightarrow> node" where
  "log_trade_failure n = n\<lparr>trade_failure_count := trade_failure_count n + 1\<rparr>"

definition log_trade_confirmation :: "string \<Rightarrow> timestamp \<Rightarrow> node \<Rightarrow> node" where
  "log_trade_confirmation h t n =
     n\<lparr>trade_confirmation_times := trade_confirmation_times n @ [(h, t)]\<rparr>"

text \<open>\<open>Node.receive_transaction\<close>\<close>

definition receive_transaction :: "transaction \<Rightarrow> node \<Rightarrow> node" where
  "receive_transaction transaction_dict n =
     (if tx_hash transaction_dict \<in> seen_transaction_hashes n then
        log_trade_failure (monitor (Record_message (node_id n) ''transaction'' 0 0 1) n)
      else
        (let n1 = n\<lparr>seen_transaction_hashes :=
                       insert (tx_hash transaction_dict) (seen_transaction_hashes n)\<rparr>
         in if transaction_dict \<notin> set (mempool n1) then
              log_trade_success
                (monitor (Record_message (node_id n) ''transaction'' 0 1 0)
                   (n1\<lparr>mempool := mempool n1 @ [transaction_dict]\<rparr>))
            else n1))"

text \<open>A run of \<open>receive_transaction\<close> calls.\<close>

fun receive_transactions :: "transaction list \<Rightarrow> node \<Rightarrow> node" where
  "receive_transactions [] n = n"
| "receive_transactions (d # ds) n = receive_transactions ds (receive_transaction d n)"

text \<open>
  \<open>Node.receive_block\<close>. The result is \<open>None\<close> for the bare \<open>return\<close> of the replay
  branch and \<open>Some\<close> of the boolean otherwise. \<open>now\<close> is the clock reading taken for the
  confirmation time and \<open>db_error\<close> says whether the database update inside
  \<open>record_block_committed\<close> raises. The hash is put into \<open>seen_block_hashes\<close> before the
  \<open>try\<close> block. The \<open>try\<close> block turns every exception into \<open>False\<close> and keeps the state
  as it was when the exception was raised; after \<open>add_block\<close> has appended the block, these
  are the \<open>KeyError\<close> of \<open>tx["tx_hash"]\<close> on a transaction of the block or on a mempool
  entry without that key, and the exception of the monitoring sink. The confirmations are
  logged in the iteration order of a Python set, which the language leaves open; the model
  takes the order of first occurrence in the block.
\<close>

definition receive_block ::
  "hashlib \<Rightarrow> timestamp \<Rightarrow> bool \<Rightarrow> block \<Rightarrow> node \<Rightarrow> bool option \<times> node" where
  "receive_block H now db_error block_dict n =
     (if hash block_dict \<in> seen_block_hashes n then
        (None, monitor (Record_message (node_id n) ''block'' 0 0 1) n)
      else
        (let n1 = n\<lparr>seen_block_hashes := insert (hash block_dict) (seen_block_hashes n)\<rparr>;
             b0 = Block H (index block_dict) (previous_hash block_dict)
                    (transactions block_dict) (timestamp block_dict) (nonce block_dict);
             b = b0\<lparr>hash := hash block_dict\<rparr>
         in case add_block H b (blockchain n1) of
              Inl e \<Rightarrow> (Some False, n1)
            | Inr (added, bc) \<Rightarrow>
                if \<not> added then (Some False, n1\<lparr>blockchain := bc\<rparr>)
                else
                  (let n2 = n1\<lparr>blockchain := bc\<rparr>
                   in case those (map tx_hash (transactions b)) of
                        None \<Rightarrow> (Some False, n2)
                      | Some tx_hashes_in_block \<Rightarrow>
                          (case those (map tx_hash (mempool n2)) of
                             None \<Rightarrow> (Some False, n2)
                           | Some mempool_hashes \<Rightarrow>
                               (let n3 = n2\<lparr>mempool :=
                                              filter (\<lambda>tx. tx_hash tx \<notin>
                                                             set (map Some tx_hashes_in_block))
                                                (mempool n2)\<rparr>;
                                    n4 = monitor (Record_block_committed (node_id n) (Some b))
                                           (monitor (Record_message (node_id n) ''block'' 0 1 0) n3)
                                in if monitoring n3 \<noteq> None \<and> db_error then (Some False, n4)
                                   else
                                     (Some True,
                                      fold (\<lambda>h. log_trade_confirmation h now)
                                        (remdups tx_hashes_in_block) n4))))))"

text \<open>
  A run of \<open>receive_block\<close> calls, each with its own clock reading and outcome of the
  sink's database update.
\<close>

fun receive_blocks :: "hashlib \<Rightarrow> (timestamp \<times> bool \<times> block) list \<Rightarrow> node \<Rightarrow> node" where
  "receive_blocks H [] n = n"
| "receive_blocks H ((t, e, b) # bs) n = receive_blocks H bs (snd (receive_block H t e b n))"

text \<open>
  \<open>Node.create_block\<close>. Both branches build the pending list from the mempool and mine
  without adding to the chain. \<open>now_txs\<close> gives the clock reading for the mempool entries
  whose timestamp is zero, \<open>now_tx\<close> and \<open>now_block\<close> those of the reward and the block.
  The result is the block dictionary, or \<open>None\<close> when the mempool is empty.
\<close>

definition create_block ::
  "hashlib \<Rightarrow> int \<Rightarrow> bool \<Rightarrow> timestamp \<Rightarrow> timestamp \<Rightarrow> timestamp \<Rightarrow> node \<Rightarrow> exn + (block option \<times> node)" where
  "create_block H n0 withhold now_txs now_tx now_block n =
     (if mempool n = [] then Inr (None, n)
      else
        (let pend = map (\<lambda>t. Transaction H (sender t) (receiver t) (amount t)
                                (Some (tx_timestamp t)) now_txs) (mempool n);
             bc0 = (blockchain n)\<lparr>pending_transactions := pend\<rparr>
         in case mine_pending_transactions H (NodeId (node_id n)) n0 False now_tx now_block bc0 of
              Inl e \<Rightarrow> Inl e
            | Inr (new_block, bc1) \<Rightarrow>
                if withhold then
                  Inr (Some new_block, n\<lparr>blockchain := bc1, withheld_block := Some new_block\<rparr>)
                else
                  Inr (Some new_block,
                       monitor (Record_latency (node_id n))
                         (monitor (Record_block_produced (node_id n) (Some (index new_block)))
                            (n\<lparr>blockchain := bc1, withheld_block := None\<rparr>)))))"

section \<open>Signatures (\<open>core/utils.py\<close>)\<close>

text \<open>
  The signature primitives wrap the cryptography library, which is not part of the
  repository; they are parameters of the model. \<open>sign_message priv m\<close> and
  \<open>verify_signature key m sig\<close> are the functions of \<open>utils.py\<close> (the latter catches
  \<open>InvalidSignature\<close> and \<open>ValueError\<close> itself and returns a boolean);
  \<open>load_public_key pem\<close> raises on a malformed PEM. \<open>pbft_message_data\<close> is the signed
  string \<open>f"{type}:{view}:{seq}:{node_id}:{serialize(block)}"\<close> of the PBFT engine and
  \<open>str_block\<close> the \<open>str(block)\<close> that the PoA and PoS engines sign.
\<close>

record crypto =
  sign_message :: "string \<Rightarrow> string \<Rightarrow> string"
  verify_signature :: "string \<Rightarrow> string \<Rightarrow> string \<Rightarrow> bool"
  load_public_key :: "string \<Rightarrow> exn + string"
  pbft_message_data :: "string \<Rightarrow> int \<Rightarrow> int \<Rightarrow> int \<Rightarrow> block option \<Rightarrow> string"
  str_block :: "block \<Rightarrow> string"

section \<open>Proof of stake (\<open>core/consensus/pos.py\<close>)\<close>

text \<open>
  \<open>staking_balances\<close> is a dictionary from node id to stake; the model keeps it as the
  list of its items, so that \<open>sum(staking_balances.values())\<close> can run over it.
\<close>

record pos_consensus =
  pos_node :: node
  validator_set :: "int list"
  balances :: "(int \<times> int) list"
  total_staked :: int
  current_validator :: "int option"
  pos_malicious_nodes :: "int set"
  pos_received_blocks :: "string set"
  pos_monitoring :: "mon_call list option"

text \<open>\<open>PoSConsensus.__init__\<close>\<close>

definition PoSConsensus ::
  "node \<Rightarrow> int list \<Rightarrow> (int \<times> int) list \<Rightarrow> mon_call list option \<Rightarrow> pos_consensus" where
  "PoSConsensus n vs staking_balances mon =
     \<lparr>pos_node = n, validator_set = vs, balances = staking_balances,
      total_staked = sum_list (map snd staking_balances), current_validator = None,
      pos_malicious_nodes = {}, pos_received_blocks = {}, pos_monitoring = mon\<rparr>"

text \<open>\<open>self.balances.get(node_id, 0)\<close>\<close>

definition stake_of :: "(int \<times> int) list \<Rightarrow> int \<Rightarrow> int" where
  "stake_of bal v = (case map_of bal v of None \<Rightarrow> 0 | Some st \<Rightarrow> st)"

text \<open>
  The loop of \<open>select_validator\<close> over \<open>validator_set\<close>, from a running \<open>cumulative\<close>
  sum: the result is the validator at which the loop returns, or \<open>None\<close> when it runs
  to the end.
\<close>

fun select_walk :: "(int \<times> int) list \<Rightarrow> rat \<Rightarrow> int \<Rightarrow> int list \<Rightarrow> int option" where
  "select_walk bal rand_value cumulative [] = None"
| "select_walk bal rand_value cumulative (v # vs) =
     (let cumulative' = cumulative + stake_of bal v
      in if rand_value \<le> of_int cumulative' then Some v
         else select_walk bal rand_value cumulative' vs)"

text \<open>
  \<open>PoSConsensus.select_validator\<close>. \<open>rand_value\<close> is the value that
  \<open>random.uniform(0, self.total_staked)\<close> returned; the random generator is outside the
  model.
\<close>

definition select_validator :: "rat \<Rightarrow> pos_consensus \<Rightarrow> int option \<times> pos_consensus" where
  "select_validator rand_value s =
     (case select_walk (balances s) rand_value 0 (validator_set s) of
        None \<Rightarrow> (None, s)
      | Some v \<Rightarrow> (Some v, s\<lparr>current_validator := Some v\<rparr>))"

definition can_propose :: "rat \<Rightarrow> pos_consensus \<Rightarrow> bool \<times> pos_consensus" where
  "can_propose rand_value s =
     (case select_validator rand_value s of
        (selected_validator, s') \<Rightarrow> (Some (node_id (pos_node s)) = selected_validator, s'))"

definition pos_monitor :: "mon_call \<Rightarrow> pos_consensus \<Rightarrow> pos_consensus" where
  "pos_monitor c s = s\<lparr>pos_monitoring := map_option (\<lambda>cs. cs @ [c]) (pos_monitoring s)\<rparr>"

text \<open>
  \<open>PoSConsensus.propose_block\<close>. The result pairs what the call returns or raises with
  the state it leaves. With a monitoring sink attached, the call
  \<open>record_block_produced(self.node.node_id)\<close> lacks the \<open>block_index\<close> argument of
  \<open>Monitoring.record_block_produced\<close> and raises \<open>TypeError\<close>, after the broadcast.
\<close>

definition pos_propose_block ::
  "hashlib \<Rightarrow> crypto \<Rightarrow> rat \<Rightarrow> timestamp \<Rightarrow> timestamp \<Rightarrow> timestamp \<Rightarrow> pos_consensus
     \<Rightarrow> (exn + block option) \<times> pos_consensus" where
  "pos_propose_block H C rand_value now_txs now_tx now_block s =
     (case can_propose rand_value s of
        (False, s1) \<Rightarrow> (Inr None, s1)
      | (True, s1) \<Rightarrow>
          (case create_block H 0 False now_txs now_tx now_block (pos_node s1) of
             Inl e \<Rightarrow> (Inl e, s1)
           | Inr (None, n1) \<Rightarrow> (Inr None, s1\<lparr>pos_node := n1\<rparr>)
           | Inr (Some b, n1) \<Rightarrow>
               (let signature = sign_message C (private_key n1) (str_block C b);
                    s2 = pos_monitor (Record_message (node_id n1) ''pos_message'' 1 0 0)
                           (s1\<lparr>pos_node := n1\<rparr>);
                    msg = \<lparr>vm_block = Some b, vm_signature = Some signature,
                           vm_sender_id = Some (node_id n1)\<rparr>;
                    s3 = s2\<lparr>pos_node := transmit (Broadcast_pos_message msg) (pos_node s2)\<rparr>
                in if pos_monitoring s3 \<noteq> None then (Inl TypeError, s3)
                   else (Inr (Some b), s3))))"

text \<open>
  The stake accumulated over the first \<open>k\<close> validators of the list, as the loop of
  \<open>select_validator\<close> sums it.
\<close>

definition cumulative_stake :: "(int \<times> int) list \<Rightarrow> int list \<Rightarrow> nat \<Rightarrow> int" where
  "cumulative_stake bal vs k = sum_list (map (stake_of bal) (take k vs))"

section \<open>Proof of authority (\<open>core/consensus/poa.py\<close>)\<close>

record poa_consensus =
  poa_node :: node
  validators :: "int list"
  current_leader_index :: int
  block_time :: int
  last_block_time :: timestamp
  poa_malicious_nodes :: "int set"
  poa_received_blocks :: "string set"
  poa_monitoring :: "mon_call list option"

text \<open>\<open>PoAConsensus.__init__\<close>\<close>

definition PoAConsensus :: "node \<Rightarrow> int list \<Rightarrow> mon_call list option \<Rightarrow> poa_consensus" where
  "PoAConsensus n vs mon =
     \<lparr>poa_node = n, validators = vs, current_leader_index = 0, block_time = 5,
      last_block_time = 0, poa_malicious_nodes = {}, poa_received_blocks = {},
      poa_monitoring = mon\<rparr>"

definition poa_monitor :: "mon_call \<Rightarrow> poa_consensus \<Rightarrow> poa_consensus" where
  "poa_monitor c s = s\<lparr>poa_monitoring := map_option (\<lambda>cs. cs @ [c]) (poa_monitoring s)\<rparr>"

definition poa_record_malicious :: "int \<Rightarrow> poa_consensus \<Rightarrow> poa_consensus" where
  "poa_record_malicious i s = s\<lparr>poa_malicious_nodes := insert i (poa_malicious_nodes s)\<rparr>"

text \<open>
  \<open>poa.py\<close> opens with \<open>from ..utils import verify_signature\<close>, which binds the name to
  the function \<open>verify_signature\<close> of \<open>utils.py\<close>. The handler then evaluates
  \<open>verify_signature.load_public_key\<close> and \<open>verify_signature.verify_signature\<close>:
  attribute look-ups on a function object that has no such attributes.
\<close>

definition function_getattr :: "string \<Rightarrow> exn + 'a" where
  "function_getattr attribute = Inl AttributeError"

text \<open>
  \<open>PoAConsensus.receive_message\<close>. The handler has no \<open>try\<close>: the first component of the
  result is the exception that leaves it, if any. \<open>not signature\<close> holds for the empty
  string and \<open>not sender_id\<close> for the id 0. The code after the two attribute look-ups is
  transcribed with what they would have returned; \<open>db_error\<close> is as in \<open>receive_block\<close>.
\<close>

definition poa_receive_message ::
  "hashlib \<Rightarrow> crypto \<Rightarrow> timestamp \<Rightarrow> bool \<Rightarrow> validator_msg \<Rightarrow> poa_consensus
     \<Rightarrow> exn option \<times> poa_consensus" where
  "poa_receive_message H C now db_error msg s =
     (case vm_block msg of None \<Rightarrow> (None, s) | Some block \<Rightarrow>
      case vm_signature msg of None \<Rightarrow> (None, s) | Some signature \<Rightarrow>
      case vm_sender_id msg of None \<Rightarrow> (None, s) | Some sender_id \<Rightarrow>
          if signature = [] \<or> sender_id = 0 then (None, s)
          else
            (let s1 = poa_monitor (Record_message (node_id (poa_node s)) ''poa_message'' 0 1 0) s
             in if sender_id \<notin> set (validators s1) then
                  (None, poa_monitor (Raise_alert sender_id ''Message from non-validator rejected'')
                           (poa_record_malicious sender_id s1))
                else
                  (case public_keys (poa_node s1) sender_id of
                     None \<Rightarrow> (None, s1)
                   | Some sender_pubkey_pem \<Rightarrow>
                       if sender_pubkey_pem = [] then (None, s1)
                       else
                         (case function_getattr ''load_public_key'' of
                            Inl e \<Rightarrow> (Some e, s1)
                          | Inr (load :: string \<Rightarrow> string) \<Rightarrow>
                              (case function_getattr ''verify_signature'' of
                                 Inl e \<Rightarrow> (Some e, s1)
                               | Inr (verify :: string \<Rightarrow> string \<Rightarrow> string \<Rightarrow> bool) \<Rightarrow>
                                   if \<not> verify (load sender_pubkey_pem) (str_block C block) signature
                                   then
                                     (None, poa_monitor
                                              (Raise_alert sender_id ''Invalid signature in PoA message'')
                                              (poa_record_malicious sender_id s1))
                                   else if hash block \<in> poa_received_blocks s1 then (None, s1)
                                   else
                                     (let s2 = s1\<lparr>poa_received_blocks :=
                                                     insert (hash block) (poa_received_blocks s1)\<rparr>;
                                          c = chain (blockchain (poa_node s2));
                                          last_hash = (if c = [] then None else Some (hash (last c)))
                                      in if Some (previous_hash block) = last_hash then
                                           (if poa_monitoring s2 \<noteq> None \<and> db_error
                                            then Some DatabaseError else None,
                                            poa_monitor
                                              (Record_block_committed (node_id (poa_node s2)) None)
                                              (s2\<lparr>poa_node :=
                                                    snd (receive_block H now db_error block
                                                           (poa_node s2))\<rparr>))
                                         else
                                           (None, poa_monitor (Record_fork_event (node_id (poa_node s2)))
                                                    s2)))))))"

section \<open>PBFT (\<open>core/consensus/pbft.py\<close>)\<close>

record pbft_consensus =
  pbft_node :: node
  total_nodes :: int
  current_view :: int
  sequence_number :: int
  prepared :: "int \<rightharpoonup> int fset"
  committed :: "int \<rightharpoonup> int fset"
  message_log :: "pbft_msg list"
  received_messages :: "(int \<times> string \<times> int) \<rightharpoonup> pbft_msg"
  malicious_nodes :: "int set"
  pbft_monitoring :: "mon_call list option"
  round_start_time :: "timestamp option"
  last_proposed_index :: int

text \<open>\<open>PbftConsensus.__init__\<close>\<close>

definition PbftConsensus :: "node \<Rightarrow> int \<Rightarrow> mon_call list option \<Rightarrow> pbft_consensus" where
  "PbftConsensus n N mon =
     \<lparr>pbft_node = n, total_nodes = N, current_view = 0, sequence_number = 0,
      prepared = Map.empty, committed = Map.empty, message_log = [],
      received_messages = Map.empty, malicious_nodes = {}, pbft_monitoring = mon,
      round_start_time = None, last_proposed_index = - 1\<rparr>"

text \<open>\<open>primary\<close>: Python's \<open>%\<close> raises on a zero divisor.\<close>

definition primary :: "pbft_consensus \<Rightarrow> exn + int" where
  "primary s = (if total_nodes s = 0 then Inl ZeroDivisionError
                else Inr (current_view s mod total_nodes s))"

text \<open>The quorum \<open>(2 * (self.total_nodes // 3)) + 1\<close> of the PREPARE and COMMIT branches.\<close>

definition quorum :: "pbft_consensus \<Rightarrow> int" where
  "quorum s = 2 * (total_nodes s div 3) + 1"

definition pbft_monitor :: "mon_call \<Rightarrow> pbft_consensus \<Rightarrow> pbft_consensus" where
  "pbft_monitor c s = s\<lparr>pbft_monitoring := map_option (\<lambda>cs. cs @ [c]) (pbft_monitoring s)\<rparr>"

text \<open>\<open>_sign_message\<close>\<close>

definition pbft_sign_message :: "crypto \<Rightarrow> string \<Rightarrow> block \<Rightarrow> int \<Rightarrow> pbft_consensus \<Rightarrow> string" where
  "pbft_sign_message C mtype b sq s =
     sign_message C (private_key (pbft_node s))
       (pbft_message_data C mtype (current_view s) sq (node_id (pbft_node s)) (Some b))"

text \<open>
  \<open>broadcast\<close>: the message is appended to \<open>message_log\<close>, counted as sent on the
  monitoring sink and handed to the transport when the node has one.
\<close>

definition broadcast :: "string \<Rightarrow> block \<Rightarrow> string \<Rightarrow> int \<Rightarrow> pbft_consensus \<Rightarrow> pbft_consensus" where
  "broadcast message_type b signature sq s =
     (let msg = \<lparr>msg_type = message_type, msg_view = current_view s, msg_seq = sq,
                 msg_node_id = node_id (pbft_node s), msg_block = Some b,
                 msg_signature = signature\<rparr>;
          s1 = s\<lparr>message_log := message_log s @ [msg]\<rparr>;
          s2 = pbft_monitor (Record_message (node_id (pbft_node s)) message_type 1 0 0) s1
      in s2\<lparr>pbft_node := transmit (Broadcast_pbft_message msg) (pbft_node s2)\<rparr>)"

definition send_prepare :: "crypto \<Rightarrow> block \<Rightarrow> int \<Rightarrow> pbft_consensus \<Rightarrow> pbft_consensus" where
  "send_prepare C b sq s =
     (let s1 = pbft_monitor (Record_pbft_prepare (node_id (pbft_node s)) (index b) False) s
      in broadcast ''PREPARE'' b (pbft_sign_message C ''PREPARE'' b sq s1) sq s1)"

definition send_commit :: "crypto \<Rightarrow> block \<Rightarrow> int \<Rightarrow> pbft_consensus \<Rightarrow> pbft_consensus" where
  "send_commit C b sq s =
     (let s1 = pbft_monitor (Record_pbft_commit (node_id (pbft_node s)) (index b) False) s
      in broadcast ''COMMIT'' b (pbft_sign_message C ''COMMIT'' b sq s1) sq s1)"

definition send_reply :: "crypto \<Rightarrow> block \<Rightarrow> int \<Rightarrow> pbft_consensus \<Rightarrow> pbft_consensus" where
  "send_reply C b sq s = broadcast ''REPLY'' b (pbft_sign_message C ''REPLY'' b sq s) sq s"

definition record_malicious :: "int \<Rightarrow> pbft_consensus \<Rightarrow> pbft_consensus" where
  "record_malicious i s = s\<lparr>malicious_nodes := insert i (malicious_nodes s)\<rparr>"

definition log_and_monitor_reject :: "int \<Rightarrow> string \<Rightarrow> pbft_consensus \<Rightarrow> pbft_consensus" where
  "log_and_monitor_reject sender_id reason s =
     pbft_monitor (Raise_alert sender_id (''Message rejected: '' @ reason))
       (record_malicious sender_id s)"

text \<open>\<open>_trigger_sync\<close>: everything is under \<open>if self.node.network\<close>.\<close>

definition trigger_sync :: "int \<Rightarrow> int \<Rightarrow> pbft_consensus \<Rightarrow> pbft_consensus" where
  "trigger_sync start_index end_index s =
     (if network (pbft_node s) = None then s
      else
        (let s1 = pbft_monitor (Record_sync_event (node_id (pbft_node s)) start_index end_index) s
         in s1\<lparr>pbft_node :=
                 transmit (Broadcast_sync_request start_index end_index) (pbft_node s1)\<rparr>))"

definition start_round_timer :: "timestamp \<Rightarrow> pbft_consensus \<Rightarrow> pbft_consensus" where
  "start_round_timer now s = s\<lparr>round_start_time := Some now\<rparr>"

text \<open>\<open>_finish_round_timer\<close>: \<open>if self.round_start_time and self.monitoring\<close>.\<close>

definition finish_round_timer :: "pbft_consensus \<Rightarrow> pbft_consensus" where
  "finish_round_timer s =
     (if round_start_time s \<noteq> None \<and> round_start_time s \<noteq> Some 0 \<and> pbft_monitoring s \<noteq> None
      then (pbft_monitor (Record_latency (node_id (pbft_node s))) s)\<lparr>round_start_time := None\<rparr>
      else s)"

text \<open>
  \<open>_cleanup_rounds\<close>: every sequence number that is a key of \<open>prepared\<close> and lies below
  \<open>current_seq - 5\<close> is dropped from \<open>prepared\<close>, from \<open>committed\<close> and, as third
  component of the key, from \<open>received_messages\<close>.
\<close>

definition cleanup_rounds :: "int \<Rightarrow> pbft_consensus \<Rightarrow> pbft_consensus" where
  "cleanup_rounds current_seq s =
     (let stale = (\<lambda>sq. prepared s sq \<noteq> None \<and> sq < current_seq - 5)
      in s\<lparr>prepared := (\<lambda>sq. if stale sq then None else prepared s sq),
           committed := (\<lambda>sq. if stale sq then None else committed s sq),
           received_messages :=
             (\<lambda>k. if stale (snd (snd k)) then None else received_messages s k)\<rparr>)"

text \<open>
  \<open>if seq not in votes: votes[seq] = set()\<close> followed by \<open>votes[seq].add(i)\<close>, and the
  \<open>len(votes[seq])\<close> read after it.
\<close>

definition add_vote :: "int \<Rightarrow> int \<Rightarrow> (int \<rightharpoonup> int fset) \<Rightarrow> (int \<rightharpoonup> int fset)" where
  "add_vote sq i votes = votes(sq \<mapsto> finsert i (case votes sq of None \<Rightarrow> {||} | Some S \<Rightarrow> S))"

definition vote_count :: "(int \<rightharpoonup> int fset) \<Rightarrow> int \<Rightarrow> int" where
  "vote_count votes sq = (case votes sq of None \<Rightarrow> 0 | Some S \<Rightarrow> int (fcard S))"

text \<open>\<open>self.node.blockchain.chain[-1].index if self.node.blockchain.chain else -1\<close>\<close>

definition current_height :: "pbft_consensus \<Rightarrow> int" where
  "current_height s =
     (let c = chain (blockchain (pbft_node s)) in if c = [] then - 1 else index (last c))"

text \<open>
  The branches of \<open>receive_message\<close>, one definition each. The whole body of
  \<open>receive_message\<close> is inside \<open>try ... except Exception\<close>: where the source raises
  (\<open>block["index"]\<close> on a message without block, \<open>primary()\<close> with no nodes), the branch
  ends with the state reached so far.
\<close>

definition on_pre_prepare :: "crypto \<Rightarrow> timestamp \<Rightarrow> pbft_msg \<Rightarrow> pbft_consensus \<Rightarrow> pbft_consensus" where
  "on_pre_prepare C now msg s =
     (case msg_block msg of
        None \<Rightarrow> s
      | Some b \<Rightarrow>
          if index b > current_height s + 1 then
            trigger_sync (current_height s + 1) (index b) s
          else if chain (blockchain (pbft_node s)) \<noteq> [] \<and>
                  previous_hash b \<noteq> hash (last (chain (blockchain (pbft_node s)))) then
            pbft_monitor (Record_fork_event (node_id (pbft_node s))) s
          else
            (case primary s of
               Inl e \<Rightarrow> s
             | Inr p \<Rightarrow>
                 start_round_timer now
                   (if node_id (pbft_node s) \<noteq> p then
                      (let s1 = send_prepare C b (msg_seq msg) s
                       in s1\<lparr>prepared := add_vote (msg_seq msg) p (prepared s1)\<rparr>)
                    else s)))"

definition on_prepare :: "crypto \<Rightarrow> pbft_msg \<Rightarrow> pbft_consensus \<Rightarrow> pbft_consensus" where
  "on_prepare C msg s =
     (case msg_block msg of
        None \<Rightarrow> s
      | Some b \<Rightarrow>
          if index b > current_height s + 1 then s
          else
            (let s1 = s\<lparr>prepared := add_vote (msg_seq msg) (msg_node_id msg) (prepared s)\<rparr>
             in if vote_count (prepared s1) (msg_seq msg) \<ge> quorum s1 then
                  (let s2 = pbft_monitor
                              (Record_pbft_prepare (node_id (pbft_node s1)) (index b) True) s1;
                       s3 = send_commit C b (msg_seq msg) s2
                   in s3\<lparr>committed :=
                           add_vote (msg_seq msg) (node_id (pbft_node s3)) (committed s3)\<rparr>)
                else s1))"

definition on_commit ::
  "hashlib \<Rightarrow> crypto \<Rightarrow> timestamp \<Rightarrow> bool \<Rightarrow> pbft_msg \<Rightarrow> pbft_consensus
     \<Rightarrow> pbft_consensus" where
  "on_commit H C now db_error msg s =
     (let s1 = s\<lparr>committed := add_vote (msg_seq msg) (msg_node_id msg) (committed s)\<rparr>
      in if vote_count (committed s1) (msg_seq msg) \<ge> quorum s1 then
           (case msg_block msg of
              None \<Rightarrow> s1
            | Some b \<Rightarrow>
                if index b \<le> current_height s1 then s1
                else if index b > current_height s1 + 1 then
                  trigger_sync (current_height s1 + 1) (index b) s1
                else if chain (blockchain (pbft_node s1)) \<noteq> [] \<and>
                        previous_hash b \<noteq> hash (last (chain (blockchain (pbft_node s1)))) then s1
                else
                  (let (added, n') = receive_block H now db_error b (pbft_node s1);
                       s2 = s1\<lparr>pbft_node := n'\<rparr>;
                       s3 = (if added = Some True then
                               (let s2a = finish_round_timer s2;
                                    s2b = (if msg_seq msg > sequence_number s2a
                                           then s2a\<lparr>sequence_number := msg_seq msg\<rparr> else s2a)
                                in cleanup_rounds (msg_seq msg) s2b)
                             else finish_round_timer s2);
                       s4 = pbft_monitor
                              (Record_pbft_commit (node_id (pbft_node s3)) (index b) True) s3
                   in send_reply C b (msg_seq msg) s4))
         else s1)"

text \<open>
  \<open>PbftConsensus.receive_message\<close>. An unknown sender is one without an entry in
  \<open>public_keys\<close>, or with an empty one (\<open>if not sender_public_key_pem\<close>). \<open>now\<close> and
  \<open>db_error\<close> are as in \<open>receive_block\<close>.
\<close>

definition pbft_receive_message ::
  "hashlib \<Rightarrow> crypto \<Rightarrow> timestamp \<Rightarrow> bool \<Rightarrow> pbft_msg \<Rightarrow> pbft_consensus
     \<Rightarrow> pbft_consensus" where
  "pbft_receive_message H C now db_error msg s =
     (let sender_id = msg_node_id msg;
          unknown = log_and_monitor_reject sender_id ''Unknown sender'' s
      in case public_keys (pbft_node s) sender_id of
           None \<Rightarrow> unknown
         | Some pem \<Rightarrow>
             if pem = [] then unknown
             else
               (case load_public_key C pem of
                  Inl e \<Rightarrow> s
                | Inr sender_public_key \<Rightarrow>
                    if \<not> verify_signature C sender_public_key
                           (pbft_message_data C (msg_type msg) (msg_view msg) (msg_seq msg)
                              sender_id (msg_block msg))
                           (msg_signature msg)
                    then log_and_monitor_reject sender_id ''Invalid signature'' s
                    else
                      (let s1 = pbft_monitor
                                  (Record_message (node_id (pbft_node s)) (msg_type msg) 0 1 0) s;
                           msg_key = (sender_id, msg_type msg, msg_seq msg)
                       in if received_messages s1 msg_key \<noteq> None then s1
                          else
                            (let s2 = s1\<lparr>received_messages :=
                                            (received_messages s1)(msg_key \<mapsto> msg)\<rparr>
                             in if msg_type msg = ''PRE_PREPARE'' then on_pre_prepare C now msg s2
                                else if msg_type msg = ''PREPARE'' then on_prepare C msg s2
                                else if msg_type msg = ''COMMIT'' then on_commit H C now db_error msg s2
                                else s2))))"

section \<open>A small hash function for concrete runs\<close>

text \<open>
  A stand-in for SHA-256 on which concrete runs can be evaluated: the digest lists the
  block's position, nonce and number of transactions in unary, then the previous hash.
\<close>

definition toy_block_hash :: "block_data \<Rightarrow> string" where
  "toy_block_hash d =
     (case d of (i, n, p, t, txs) \<Rightarrow>
        replicate (nat i) CHR ''i'' @ replicate (nat n) CHR ''n'' @
        replicate (length txs) CHR ''t'' @ CHR ''/'' # p)"

definition toy_tx_hash :: "tx_data \<Rightarrow> string" where
  "toy_tx_hash d = (case d of (a, r, s, t) \<Rightarrow> replicate (nat a) CHR ''a'')"

definition toy :: hashlib where
  "toy = \<lparr>sha256_block = toy_block_hash, sha256_tx = toy_tx_hash\<rparr>"

subsection \<open>Concrete blocks and ledgers\<close>

text \<open>A block that links to the genesis block under \<open>toy\<close>.\<close>

definition blk1 :: block where
  "blk1 = \<lparr>index = 1, previous_hash = ''/0'', transactions = [], timestamp = 5, nonce = 0,
            hash = ''i//0''\<rparr>"

text \<open>A block that links to \<open>blk1\<close>, not to the genesis block.\<close>

definition blk2 :: block where
  "blk2 = \<lparr>index = 2, previous_hash = ''i//0'', transactions = [], timestamp = 6, nonce = 0,
            hash = ''ii/i//0''\<rparr>"

text \<open>
  A block that links to the genesis block and carries a transaction dictionary without
  the \<open>tx_hash\<close> key.
\<close>

definition blk_nokey :: block where
  "blk_nokey = \<lparr>index = 1, previous_hash = ''/0'',
                 transactions = [\<lparr>sender = NodeId 1, receiver = NodeId 2, amount = 5,
                                  tx_timestamp = 3, tx_hash = None\<rparr>],
                 timestamp = 5, nonce = 0, hash = ''it//0''\<rparr>"

text \<open>A block that links to the genesis block and claims position 7.\<close>

definition blk7 :: block where
  "blk7 = \<lparr>index = 7, previous_hash = ''/0'', transactions = [], timestamp = 5, nonce = 0,
            hash = ''iiiiiii//0''\<rparr>"

definition genesis_toy :: block where
  "genesis_toy = \<lparr>index = 0, previous_hash = ''0'', transactions = [], timestamp = 0,
                   nonce = 0, hash = ''/0''\<rparr>"

text \<open>The ledger after the genesis ledger admitted \<open>blk7\<close>.\<close>

definition ledger7 :: blockchain where
  "ledger7 = \<lparr>chain = [genesis_toy, blk7], pending_transactions = []\<rparr>"

text \<open>The reward and the blocks that node 3 mines at clock readings 9 and 10.\<close>

definition reward3 :: transaction where
  "reward3 = \<lparr>sender = Network, receiver = NodeId 3, amount = 1, tx_timestamp = 9,
               tx_hash = Some ''a''\<rparr>"

definition mined1 :: block where
  "mined1 = \<lparr>index = 1, previous_hash = ''/0'', transactions = [reward3], timestamp = 10,
              nonce = 0, hash = ''it//0''\<rparr>"

definition mined7 :: block where
  "mined7 = \<lparr>index = 2, previous_hash = ''iiiiiii//0'', transactions = [reward3],
              timestamp = 10, nonce = 0, hash = ''iit/iiiiiii//0''\<rparr>"

text \<open>A node with a transport and a monitoring sink, on the genesis ledger under \<open>toy\<close>.\<close>

definition node0 :: node where
  "node0 = start_network (Node toy 0 (Some []) ''priv0'' ''pem0'')"

definition tx_a :: transaction where
  "tx_a = \<lparr>sender = NodeId 1, receiver = NodeId 2, amount = 5, tx_timestamp = 3,
            tx_hash = Some ''aaaaa''\<rparr>"

text \<open>Another dictionary carrying the same \<open>tx_hash\<close>.\<close>

definition tx_a' :: transaction where
  "tx_a' = \<lparr>sender = NodeId 1, receiver = NodeId 2, amount = 6, tx_timestamp = 4,
             tx_hash = Some ''aaaaa''\<rparr>"

definition tx_b :: transaction where
  "tx_b = \<lparr>sender = NodeId 2, receiver = NodeId 1, amount = 2, tx_timestamp = 4,
            tx_hash = Some ''aa''\<rparr>"

text \<open>
  \<open>node0\<close> after it was offered \<open>blk2\<close> (rejected: it does not link to the genesis block)
  and then \<open>blk1\<close> (admitted).
\<close>

definition node_advanced :: node where
  "node_advanced =
     \<lparr>node_id = 0,
      blockchain = \<lparr>chain = [genesis_toy, blk1], pending_transactions = []\<rparr>,
      mempool = [], network = Some [],
      monitoring = Some [Record_message 0 ''block'' 0 1 0, Record_block_committed 0 (Some blk1)],
      public_keys = [0 \<mapsto> ''pem0''], private_key = ''priv0'',
      seen_transaction_hashes = {}, seen_block_hashes = {hash blk1, hash blk2},
      trade_success_count = 0, trade_failure_count = 0, trade_confirmation_times = [],
      withheld_block = None\<rparr>"

subsection \<open>Stand-in signatures and a proof-of-stake engine\<close>

text \<open>
  A stand-in signature scheme for concrete runs: the public key is the private key, and a
  signature is the key followed by the message.
\<close>

definition toy_crypto :: crypto where
  "toy_crypto =
     \<lparr>sign_message = (\<lambda>priv m. priv @ CHR ''#'' # m),
      verify_signature = (\<lambda>key m sg. sg = key @ CHR ''#'' # m),
      load_public_key = (\<lambda>pem. if pem = ''bad'' then Inl ValueError else Inr pem),
      pbft_message_data = (\<lambda>t v q i b. t @ CHR '':'' # replicate (nat q) CHR ''s'' @
                             CHR '':'' # (case b of None \<Rightarrow> ''null'' | Some b' \<Rightarrow> hash b')),
      str_block = hash\<rparr>"

text \<open>
  Node 0 as one of two validators with stake 10 each, without a monitoring sink on the
  engine; \<open>pos0\<close> with an empty mempool, \<open>pos1\<close> after the node received \<open>tx_a\<close>.
\<close>

definition pos0 :: pos_consensus where
  "pos0 = PoSConsensus node0 [0, 1] [(0, 10), (1, 10)] None"

definition pos1 :: pos_consensus where
  "pos1 = PoSConsensus (receive_transaction tx_a node0) [0, 1] [(0, 10), (1, 10)] None"

text \<open>The block that node 0 proposes from \<open>pos1\<close> at clock readings 2 and 3.\<close>

definition proposal1 :: block where
  "proposal1 =
     \<lparr>index = 1, previous_hash = ''/0'',
      transactions = [tx_a, \<lparr>sender = Network, receiver = NodeId 0, amount = 1,
                              tx_timestamp = 2, tx_hash = Some ''a''\<rparr>],
      timestamp = 3, nonce = 0, hash = ''itt//0''\<rparr>"

text \<open>
  A proof-of-authority engine on node 0 with validators 0, 1 and 2, which knows the key of
  node 1; and a message from node 1 carrying \<open>blk1\<close>, which links to the tip, with the
  signature of node 1.
\<close>

definition poa1 :: poa_consensus where
  "poa1 = PoAConsensus (node0\<lparr>public_keys := (public_keys node0)(1 \<mapsto> ''k1'')\<rparr>) [0, 1, 2]
            (Some [])"

definition poa_msg1 :: validator_msg where
  "poa_msg1 = \<lparr>vm_block = Some blk1, vm_signature = Some ''k1#i//0'', vm_sender_id = Some 1\<rparr>"

subsection \<open>A PBFT replica\<close>

text \<open>
  Node 1 of four (quorum 3, primary 0), on the genesis ledger, with the keys of all four
  nodes and with the votes of nodes 0 and 2 already in \<open>prepared[1]\<close>.
\<close>

definition node1 :: node where
  "node1 = (start_network (Node toy 1 (Some []) ''k1'' ''k1''))
             \<lparr>public_keys := [0 \<mapsto> ''k0'', 1 \<mapsto> ''k1'', 2 \<mapsto> ''k2'', 3 \<mapsto> ''k3'']\<rparr>"

definition pbft1 :: pbft_consensus where
  "pbft1 = (PbftConsensus node1 4 (Some []))\<lparr>prepared := [1 \<mapsto> {|0, 2|}]\<rparr>"

text \<open>The PREPARE of node 3 for sequence number 1 and \<open>blk1\<close>, signed by node 3.\<close>

definition prepare3 :: pbft_msg where
  "prepare3 = \<lparr>msg_type = ''PREPARE'', msg_view = 0, msg_seq = 1, msg_node_id = 3,
                msg_block = Some blk1, msg_signature = ''k3#PREPARE:s:i//0''\<rparr>"

text \<open>The COMMIT that node 1 sends for it.\<close>

definition commit1 :: pbft_msg where
  "commit1 = \<lparr>msg_type = ''COMMIT'', msg_view = 0, msg_seq = 1, msg_node_id = 1,
               msg_block = Some blk1, msg_signature = ''k1#COMMIT:s:i//0''\<rparr>"

text \<open>A block at index 3 and the PRE_PREPARE of the primary for it, signed by node 0.\<close>

definition blk3 :: block where
  "blk3 = \<lparr>index = 3, previous_hash = ''x'', transactions = [], timestamp = 7, nonce = 0,
            hash = ''h3''\<rparr>"

definition pre_prepare_gap :: pbft_msg where
  "pre_prepare_gap = \<lparr>msg_type = ''PRE_PREPARE'', msg_view = 0, msg_seq = 3, msg_node_id = 0,
                       msg_block = Some blk3, msg_signature = ''k0#PRE_PREPARE:sss:h3''\<rparr>"

section \<open>Ledger admission\<close>

lemma last_block_nonempty: "chain bc \<noteq> [] \<Longrightarrow> last_block bc = Inr (last (chain bc))"
  by (simp add: last_block_def)

text \<open>
  Claim C2. For every block \<open>B\<close> and every ledger (its chain holds at least the genesis
  block, with tip \<open>last (chain bc)\<close>): \<open>add_block B\<close> returns false and leaves the ledger as
  it is when \<open>B.previous_hash \<noteq> tip.hash\<close> or \<open>B.hash \<noteq> recompute(B)\<close>; otherwise it
  appends \<open>B\<close> to the chain, sets \<open>pending_transactions\<close> to the empty list and returns
  true.
\<close>

theorem add_block_spec:
  assumes "chain bc \<noteq> []"
  shows "add_block H B bc =
           (if previous_hash B \<noteq> hash (last (chain bc)) \<or> hash B \<noteq> compute_hash H B
            then Inr (False, bc)
            else Inr (True, bc\<lparr>chain := chain bc @ [B], pending_transactions := []\<rparr>))"
  using assms by (simp add: add_block_def last_block_nonempty)

lemma Blockchain_toy: "Blockchain toy = \<lparr>chain = [genesis_toy], pending_transactions = []\<rparr>"
  by (simp add: Blockchain_def create_genesis_block_def Block_def compute_hash_def toy_def
      toy_block_hash_def genesis_toy_def)

lemma compute_hash_blk1: "compute_hash toy blk1 = ''i//0''"
  by (simp add: compute_hash_def toy_def toy_block_hash_def blk1_def)

theorem add_block_spec_witness:
  "chain (Blockchain toy) \<noteq> [] \<and>
   add_block toy blk1 (Blockchain toy) =
     Inr (True, \<lparr>chain = [genesis_toy, blk1], pending_transactions = []\<rparr>) \<and>
   add_block toy blk2 (Blockchain toy) = Inr (False, Blockchain toy)"
  using add_block_spec [of "Blockchain toy" toy blk1] add_block_spec [of "Blockchain toy" toy blk2]
  by (simp add: Blockchain_toy compute_hash_blk1) (simp add: blk1_def blk2_def genesis_toy_def)

section \<open>Chain integrity\<close>

lemma genesis_chain: "chain (Blockchain H) = [Block H 0 ''0'' [] 0 0]"
  by (simp add: Blockchain_def create_genesis_block_def)

lemma chain_integrity_single: "chain_integrity H [g]"
  by (simp add: chain_integrity_def)

lemma chain_integrity_snoc:
  assumes "chain_integrity H c" and "c \<noteq> []"
    and "previous_hash b = hash (last c)" and "hash b = compute_hash H b"
  shows "chain_integrity H (c @ [b])"
  unfolding chain_integrity_def
proof (intro allI impI)
  fix i assume i: "1 \<le> i \<and> i < length (c @ [b])"
  show "previous_hash ((c @ [b]) ! i) = hash ((c @ [b]) ! (i - 1)) \<and>
        hash ((c @ [b]) ! i) = compute_hash H ((c @ [b]) ! i)"
  proof (cases "i < length c")
    case True
    with i have "i - 1 < length c" by simp
    with True i assms(1) show ?thesis
      by (simp add: chain_integrity_def nth_append)
  next
    case False
    with i have "i = length c" by simp
    with assms(2-4) show ?thesis
      by (simp add: nth_append last_conv_nth)
  qed
qed

lemma add_block_result:
  "chain bc \<noteq> [] \<Longrightarrow>
   add_block H b bc =
     (if previous_hash b \<noteq> hash (last (chain bc)) \<or> hash b \<noteq> compute_hash H b
      then Inr (False, bc)
      else Inr (True, bc\<lparr>chain := chain bc @ [b], pending_transactions := []\<rparr>))"
  by (simp add: add_block_def last_block_nonempty)

lemma add_block_preserves:
  assumes "chain bc \<noteq> []" and "chain_integrity H (chain bc)"
    and "add_block H b bc = Inr (r, bc')"
  shows "chain bc' \<noteq> [] \<and> chain_integrity H (chain bc')"
  using assms
  by (auto simp: add_block_result chain_integrity_snoc split: if_splits)

lemma add_block_total: "chain bc \<noteq> [] \<Longrightarrow> \<exists>r bc'. add_block H b bc = Inr (r, bc')"
  by (cases "previous_hash b \<noteq> hash (last (chain bc)) \<or> hash b \<noteq> compute_hash H b")
     (auto simp: add_block_result)

lemma add_blocks_invariant:
  "chain bc \<noteq> [] \<Longrightarrow> chain_integrity H (chain bc) \<Longrightarrow>
   \<exists>bc'. add_blocks H bs bc = Inr bc' \<and> chain bc' \<noteq> [] \<and> chain_integrity H (chain bc')"
proof (induction bs arbitrary: bc)
  case Nil
  then show ?case by simp
next
  case (Cons b bs)
  from add_block_total [OF Cons.prems(1)] obtain r bc1
    where step: "add_block H b bc = Inr (r, bc1)" by blast
  from add_block_preserves [OF Cons.prems step]
  have "chain bc1 \<noteq> []" and "chain_integrity H (chain bc1)" by simp_all
  from Cons.IH [OF this] show ?case by (simp add: step)
qed

text \<open>The source's own validity scan decides the invariant.\<close>

lemma chain_integrity_Cons2:
  "chain_integrity H (g # c # rest) =
     (previous_hash c = hash g \<and> hash c = compute_hash H c \<and> chain_integrity H (c # rest))"
  unfolding chain_integrity_def
  apply (rule iffI)
   apply (intro conjI allI impI)
      apply (drule_tac x=1 in spec, simp)
     apply (drule_tac x=1 in spec, simp)
    apply (drule_tac x="Suc i" in spec, simp)
   apply (drule_tac x="Suc i" in spec, simp)
  apply (intro allI impI)
  apply (case_tac i, simp)
  apply (case_tac nat, simp)
  apply (erule conjE)+
  apply (drule_tac x="Suc nata" in spec)
  apply simp
  done

lemma is_chain_valid_from_iff:
  "is_chain_valid_from H g rest = chain_integrity H (g # rest)"
proof (induction rest arbitrary: g)
  case Nil
  show ?case by (simp add: chain_integrity_def)
next
  case (Cons c rest)
  with chain_integrity_Cons2 [of H g c rest] show ?case by auto
qed

text \<open>
  Claim C1. Chain integrity: starting from the genesis ledger, every sequence of
  \<open>add_block\<close> calls (accepted or rejected) runs without raising and leaves a chain in
  which, for all \<open>i \<ge> 1\<close>, \<open>chain[i].previous_hash = chain[i-1].hash\<close> and
  \<open>chain[i].hash\<close> is the recomputed hash of \<open>chain[i]\<close>; the source's own scan
  \<open>is_chain_valid\<close> then returns true. Every single admission preserves the invariant.
\<close>

theorem chain_integrity_add_blocks:
  "(\<exists>bc. add_blocks H bs (Blockchain H) = Inr bc \<and> chain_integrity H (chain bc) \<and>
         is_chain_valid H bc) \<and>
   (\<forall>bc b r bc'. chain bc \<noteq> [] \<and> chain_integrity H (chain bc) \<and>
        add_block H b bc = Inr (r, bc') \<longrightarrow> chain_integrity H (chain bc'))"
proof (intro conjI allI impI)
  have "chain (Blockchain H) \<noteq> []" "chain_integrity H (chain (Blockchain H))"
    by (simp_all add: genesis_chain chain_integrity_single)
  from add_blocks_invariant [OF this, of bs] obtain bc
    where bc: "add_blocks H bs (Blockchain H) = Inr bc" "chain bc \<noteq> []"
      "chain_integrity H (chain bc)"
    by blast
  then have "is_chain_valid H bc"
    by (cases "chain bc") (simp_all add: is_chain_valid_def is_chain_valid_from_iff)
  with bc show "\<exists>bc. add_blocks H bs (Blockchain H) = Inr bc \<and> chain_integrity H (chain bc) \<and>
         is_chain_valid H bc" by blast
next
  fix bc b r bc'
  assume "chain bc \<noteq> [] \<and> chain_integrity H (chain bc) \<and> add_block H b bc = Inr (r, bc')"
  then show "chain_integrity H (chain bc')"
    using add_block_preserves [of bc H b r bc'] by simp
qed

lemma add_block_toy_blk1:
  "add_block toy blk1 (Blockchain toy) =
     Inr (True, \<lparr>chain = [genesis_toy, blk1], pending_transactions = []\<rparr>)"
  by (simp add: Blockchain_toy add_block_result compute_hash_blk1)
     (simp add: blk1_def genesis_toy_def)

lemma add_block_toy_blk2:
  "add_block toy blk2 (Blockchain toy) = Inr (False, Blockchain toy)"
  by (simp add: Blockchain_toy add_block_result) (simp add: blk2_def genesis_toy_def)

theorem chain_integrity_add_blocks_witness:
  "add_blocks toy [blk2, blk1] (Blockchain toy) =
     Inr \<lparr>chain = [genesis_toy, blk1], pending_transactions = []\<rparr> \<and>
   (1::nat) \<le> 1 \<and> 1 < length [genesis_toy, blk1] \<and>
   previous_hash ([genesis_toy, blk1] ! 1) = hash ([genesis_toy, blk1] ! (1 - 1)) \<and>
   hash ([genesis_toy, blk1] ! 1) = compute_hash toy ([genesis_toy, blk1] ! 1) \<and>
   chain_integrity toy [genesis_toy, blk1]"
proof -
  have run: "add_blocks toy [blk2, blk1] (Blockchain toy) =
     Inr \<lparr>chain = [genesis_toy, blk1], pending_transactions = []\<rparr>"
    by (simp add: add_block_toy_blk2 add_block_toy_blk1)
  from chain_integrity_add_blocks [of toy "[blk2, blk1]"] obtain bc
    where "add_blocks toy [blk2, blk1] (Blockchain toy) = Inr bc" "chain_integrity toy (chain bc)"
    by blast
  with run have ci: "chain_integrity toy [genesis_toy, blk1]"
    by auto
  then have "previous_hash ([genesis_toy, blk1] ! 1) = hash ([genesis_toy, blk1] ! (1 - 1)) \<and>
   hash ([genesis_toy, blk1] ! 1) = compute_hash toy ([genesis_toy, blk1] ! 1)"
    unfolding chain_integrity_def by (drule_tac x=1 in spec) simp
  with run ci show ?thesis by simp
qed

section \<open>Mining\<close>

lemma Block_hash: "hash (Block H i p txs t n) = compute_hash H (Block H i p txs t n)"
  by (simp add: Block_def compute_hash_def)

lemma Block_rehash:
  "(Block H i p txs t n)\<lparr>hash := compute_hash H (Block H i p txs t n)\<rparr> = Block H i p txs t n"
  by (simp add: Block_def compute_hash_def)

lemma Block_fields:
  "index (Block H i p txs t n) = i" "previous_hash (Block H i p txs t n) = p"
  "transactions (Block H i p txs t n) = txs" "timestamp (Block H i p txs t n) = t"
  "nonce (Block H i p txs t n) = n"
  by (simp_all add: Block_def)

text \<open>
  Claim C8, amended. For every call \<open>mine_pending_transactions(miner_id, nonce, add)\<close> on a
  ledger whose tip is \<open>T\<close>: a reward transaction with sender \<open>"Network"\<close>, receiver
  \<open>miner_id\<close> and amount 1 is appended to \<open>pending_transactions\<close>; the returned block
  carries the pending list with the reward, has \<open>index = len(chain)\<close> (which is
  \<open>T.index + 1\<close> whenever \<open>T.index\<close> is the tip's position in the chain),
  \<open>previous_hash = T.hash\<close> and a recomputed hash; when \<open>add\<close> is true the block is passed
  to \<open>add_block\<close>, which admits it and empties the pending list.
\<close>

theorem mine_pending_transactions_spec:
  assumes "chain bc \<noteq> []"
  shows "\<exists>B bc'.
     mine_pending_transactions H miner_id n add now_tx now_block bc = Inr (B, bc') \<and>
     transactions B = pending_transactions bc @
        [\<lparr>sender = Network, receiver = miner_id, amount = 1, tx_timestamp = now_tx,
          tx_hash = Some (tx_compute_hash H Network miner_id 1 now_tx)\<rparr>] \<and>
     index B = int (length (chain bc)) \<and>
     (index (last (chain bc)) = int (length (chain bc)) - 1 \<longrightarrow>
        index B = index (last (chain bc)) + 1) \<and>
     previous_hash B = hash (last (chain bc)) \<and>
     timestamp B = now_block \<and> nonce B = n \<and>
     hash B = compute_hash H B \<and>
     (if add
      then add_block H B (bc\<lparr>pending_transactions := transactions B\<rparr>) = Inr (True, bc') \<and>
           bc' = bc\<lparr>chain := chain bc @ [B], pending_transactions := []\<rparr>
      else bc' = bc\<lparr>pending_transactions := transactions B\<rparr>)"
proof -
  let ?r = "\<lparr>sender = Network, receiver = miner_id, amount = 1, tx_timestamp = now_tx,
          tx_hash = Some (tx_compute_hash H Network miner_id 1 now_tx)\<rparr>"
  let ?bc1 = "bc\<lparr>pending_transactions := pending_transactions bc @ [?r]\<rparr>"
  let ?B = "Block H (int (length (chain bc))) (hash (last (chain bc)))
              (pending_transactions bc @ [?r]) now_block n"
  have r: "Transaction H Network miner_id 1 None now_tx = ?r"
    by (simp add: Transaction_def)
  have ne: "chain ?bc1 \<noteq> []" using assms by simp
  have ab: "add_block H ?B ?bc1 =
      Inr (True, bc\<lparr>chain := chain bc @ [?B], pending_transactions := []\<rparr>)"
    using ne by (simp add: add_block_result Block_fields Block_hash [symmetric])
  have m: "mine_pending_transactions H miner_id n add now_tx now_block bc =
      Inr (?B, if add then bc\<lparr>chain := chain bc @ [?B], pending_transactions := []\<rparr> else ?bc1)"
    using assms ab
    by (simp add: mine_pending_transactions_def r last_block_nonempty Block_rehash Let_def)
  show ?thesis
    using m ab by (simp add: Block_fields Block_hash [symmetric])
qed

theorem mine_pending_transactions_spec_witness:
  "chain (Blockchain toy) \<noteq> [] \<and>
   index (last (chain (Blockchain toy))) = int (length (chain (Blockchain toy))) - 1 \<and>
   mine_pending_transactions toy (NodeId 3) 0 True 9 10 (Blockchain toy) =
     Inr (mined1, \<lparr>chain = [genesis_toy, mined1], pending_transactions = []\<rparr>) \<and>
   index mined1 = index (last (chain (Blockchain toy))) + 1"
  using mine_pending_transactions_spec [of "Blockchain toy" toy "NodeId 3" 0 True 9 10]
  unfolding Blockchain_toy
  by (simp add: mine_pending_transactions_def last_block_def Let_def
      Transaction_def tx_compute_hash_def Block_def compute_hash_def toy_def toy_block_hash_def
      toy_tx_hash_def add_block_def mined1_def reward3_def genesis_toy_def eval_nat_numeral)

lemma compute_hash_blk7: "compute_hash toy blk7 = ''iiiiiii//0''"
  by (simp add: compute_hash_def toy_def toy_block_hash_def blk7_def eval_nat_numeral)

text \<open>The ledger \<open>ledger7\<close> is reached from the genesis ledger by one \<open>add_block\<close> call.\<close>

lemma ledger7_reachable: "add_blocks toy [blk7] (Blockchain toy) = Inr ledger7"
  by (simp add: Blockchain_toy add_block_result compute_hash_blk7 ledger7_def)
     (simp add: blk7_def genesis_toy_def)

text \<open>
  Claim C8 as stated fails: on \<open>ledger7\<close> the tip has index 7, and the block mined next has
  index 2 (the length of the chain), not 8.
\<close>

theorem mine_pending_index_counterexample:
  "mine_pending_transactions toy (NodeId 3) 0 True 9 10 ledger7 =
     Inr (mined7, \<lparr>chain = [genesis_toy, blk7, mined7], pending_transactions = []\<rparr>) \<and>
   index mined7 = 2 \<and> index (last (chain ledger7)) + 1 = 8"
  by (simp add: mine_pending_transactions_def ledger7_def last_block_def Let_def Transaction_def
      tx_compute_hash_def Block_def compute_hash_def toy_def toy_block_hash_def toy_tx_hash_def
      add_block_def mined7_def reward3_def blk7_def genesis_toy_def eval_nat_numeral)

section \<open>Replay protection of the node\<close>

lemma node0_eq:
  "node0 =
     \<lparr>node_id = 0, blockchain = \<lparr>chain = [genesis_toy], pending_transactions = []\<rparr>,
      mempool = [], network = Some [], monitoring = Some [],
      public_keys = [0 \<mapsto> ''pem0''], private_key = ''priv0'',
      seen_transaction_hashes = {}, seen_block_hashes = {},
      trade_success_count = 0, trade_failure_count = 0, trade_confirmation_times = [],
      withheld_block = None\<rparr>"
  by (simp add: node0_def Node_def start_network_def Blockchain_toy)

subsection \<open>Transactions\<close>

lemma receive_transaction_seen:
  "tx_hash d \<in> seen_transaction_hashes n \<Longrightarrow>
   receive_transaction d n =
     log_trade_failure (monitor (Record_message (node_id n) ''transaction'' 0 0 1) n)"
  by (simp add: receive_transaction_def)

lemma seen_transaction_hashes_mono:
  "seen_transaction_hashes n \<subseteq> seen_transaction_hashes (receive_transaction d n)"
  by (auto simp: receive_transaction_def log_trade_failure_def log_trade_success_def
      monitor_def Let_def)

lemma receive_transaction_marks:
  "tx_hash d \<in> seen_transaction_hashes (receive_transaction d n)"
  by (auto simp: receive_transaction_def log_trade_failure_def log_trade_success_def
      monitor_def Let_def)

lemma receive_transactions_mono:
  "seen_transaction_hashes n \<subseteq> seen_transaction_hashes (receive_transactions ds n)"
proof (induction ds arbitrary: n)
  case Nil
  show ?case by simp
next
  case (Cons d ds)
  from seen_transaction_hashes_mono [of n d] Cons.IH [of "receive_transaction d n"]
  show ?case by auto
qed

text \<open>
  Claim C6. Transaction idempotence: after a first \<open>receive_transaction(d)\<close>, and whatever
  other transactions were received since, a call with a dictionary of the same \<open>tx_hash\<close>
  leaves the node's mempool and chain (and the seen set) unchanged; the duplicate is
  counted as dropped, by the call \<open>record_message(node_id, "transaction", dropped=1)\<close> on
  the node's monitoring sink when it has one, and recorded as a trade failure.
\<close>

theorem receive_transaction_idempotent:
  assumes "tx_hash d' = tx_hash d"
    and "n1 = receive_transactions ds (receive_transaction d n)"
  shows "mempool (receive_transaction d' n1) = mempool n1 \<and>
         blockchain (receive_transaction d' n1) = blockchain n1 \<and>
         seen_transaction_hashes (receive_transaction d' n1) = seen_transaction_hashes n1 \<and>
         monitoring (receive_transaction d' n1) =
           map_option (\<lambda>cs. cs @ [Record_message (node_id n1) ''transaction'' 0 0 1])
             (monitoring n1) \<and>
         trade_failure_count (receive_transaction d' n1) = trade_failure_count n1 + 1 \<and>
         trade_success_count (receive_transaction d' n1) = trade_success_count n1"
proof -
  have "tx_hash d' \<in> seen_transaction_hashes n1"
    using assms receive_transaction_marks [of d n]
      receive_transactions_mono [of "receive_transaction d n" ds] by auto
  then show ?thesis
    by (simp add: receive_transaction_seen log_trade_failure_def monitor_def)
qed

theorem receive_transaction_idempotent_witness:
  "tx_hash tx_a' = tx_hash tx_a \<and>
   mempool (receive_transactions [tx_b] (receive_transaction tx_a node0)) = [tx_a, tx_b] \<and>
   mempool (receive_transaction tx_a'
              (receive_transactions [tx_b] (receive_transaction tx_a node0))) = [tx_a, tx_b] \<and>
   monitoring (receive_transaction tx_a'
              (receive_transactions [tx_b] (receive_transaction tx_a node0))) =
     Some [Record_message 0 ''transaction'' 0 1 0, Record_message 0 ''transaction'' 0 1 0,
           Record_message 0 ''transaction'' 0 0 1] \<and>
   trade_failure_count (receive_transaction tx_a'
              (receive_transactions [tx_b] (receive_transaction tx_a node0))) = 1"
  using receive_transaction_idempotent [of tx_a' tx_a
      "receive_transactions [tx_b] (receive_transaction tx_a node0)" "[tx_b]" node0]
  by (simp add: node0_eq receive_transaction_def log_trade_failure_def log_trade_success_def
      monitor_def Let_def tx_a_def tx_b_def tx_a'_def)

subsection \<open>Blocks\<close>

lemma fold_log_seen [simp]:
  "seen_block_hashes (fold (\<lambda>h. log_trade_confirmation h t) hs n) = seen_block_hashes n"
  by (induction hs arbitrary: n) (simp_all add: log_trade_confirmation_def)

lemma fold_log_blockchain [simp]:
  "blockchain (fold (\<lambda>h. log_trade_confirmation h t) hs n) = blockchain n"
  by (induction hs arbitrary: n) (simp_all add: log_trade_confirmation_def)

lemma receive_block_seen:
  "hash b \<in> seen_block_hashes n \<Longrightarrow>
   receive_block H t e b n = (None, monitor (Record_message (node_id n) ''block'' 0 0 1) n)"
  by (simp add: receive_block_def)

lemma receive_block_marks:
  "hash b \<in> seen_block_hashes (snd (receive_block H t e b n))"
  by (auto simp: receive_block_def monitor_def Let_def
      split: sum.splits prod.splits option.splits)

lemma seen_block_hashes_mono:
  "seen_block_hashes n \<subseteq> seen_block_hashes (snd (receive_block H t e b n))"
  by (auto simp: receive_block_def monitor_def Let_def
      split: sum.splits prod.splits option.splits)

lemma receive_blocks_mono:
  "seen_block_hashes n \<subseteq> seen_block_hashes (receive_blocks H bs n)"
proof (induction bs arbitrary: n)
  case Nil
  show ?case by simp
next
  case (Cons tb bs)
  obtain t e b where tb: "tb = (t, e, b)" by (cases tb)
  from seen_block_hashes_mono [of n H t e b] Cons.IH [of "snd (receive_block H t e b n)"]
  show ?case by (auto simp: tb)
qed

lemma receive_block_chain_step:
  "chain (blockchain (snd (receive_block H t e b n))) = chain (blockchain n) \<or>
   chain (blockchain (snd (receive_block H t e b n))) = chain (blockchain n) @ [b]"
  by (auto simp: receive_block_def monitor_def Let_def add_block_def last_block_def Block_def
       split: sum.splits prod.splits if_splits option.splits)

text \<open>
  Claim C7. Block idempotence: the first \<open>receive_block(b)\<close> appends at most one block;
  after it, and whatever other blocks were received since, every call with a block
  dictionary of the same hash returns at once (with \<open>None\<close>) and leaves the ledger as it
  is, so the chain does not grow.
\<close>

theorem receive_block_idempotent:
  assumes "hash b' = hash b"
    and "n1 = receive_blocks H bs (snd (receive_block H t e b n))"
  shows "fst (receive_block H t' e' b' n1) = None \<and>
         blockchain (snd (receive_block H t' e' b' n1)) = blockchain n1 \<and>
         length (chain (blockchain (snd (receive_block H t e b n)))) \<le>
           length (chain (blockchain n)) + 1"
proof -
  have "hash b' \<in> seen_block_hashes n1"
    using assms receive_block_marks [of b H t e n]
      receive_blocks_mono [of "snd (receive_block H t e b n)" H bs] by auto
  then have "fst (receive_block H t' e' b' n1) = None \<and>
         blockchain (snd (receive_block H t' e' b' n1)) = blockchain n1"
    by (simp add: receive_block_seen monitor_def)
  moreover have "length (chain (blockchain (snd (receive_block H t e b n)))) \<le>
           length (chain (blockchain n)) + 1"
    using receive_block_chain_step [of H t e b n] by auto
  ultimately show ?thesis by simp
qed

lemma receive_blk2_node0:
  "receive_block toy 7 False blk2 node0 = (Some False, node0\<lparr>seen_block_hashes := {hash blk2}\<rparr>)"
  by (simp add: node0_eq receive_block_def Let_def add_block_def last_block_def Block_def
      compute_hash_def toy_def toy_block_hash_def blk2_def genesis_toy_def)

lemma receive_blk1_after_blk2:
  "receive_blocks toy [(8, False, blk1)] (node0\<lparr>seen_block_hashes := {hash blk2}\<rparr>) = node_advanced"
  by (simp add: node0_eq receive_block_def Let_def add_block_def last_block_def Block_def
      compute_hash_def toy_def toy_block_hash_def blk2_def blk1_def genesis_toy_def monitor_def
      node_advanced_def eval_nat_numeral)

lemma blk2_links_now:
  "add_block toy blk2 (blockchain node_advanced) =
     Inr (True, \<lparr>chain = [genesis_toy, blk1, blk2], pending_transactions = []\<rparr>)"
  by (simp add: node_advanced_def add_block_def last_block_def Block_def compute_hash_def
      toy_def toy_block_hash_def blk2_def blk1_def eval_nat_numeral)

theorem receive_block_idempotent_witness:
  "hash blk1 = hash blk1 \<and>
   chain (blockchain (snd (receive_block toy 8 False blk1 node0))) = [genesis_toy, blk1] \<and>
   fst (receive_block toy 9 False blk1
          (receive_blocks toy [] (snd (receive_block toy 8 False blk1 node0)))) = None \<and>
   chain (blockchain (snd (receive_block toy 9 False blk1
          (receive_blocks toy [] (snd (receive_block toy 8 False blk1 node0)))))) =
     [genesis_toy, blk1]"
proof -
  have first: "chain (blockchain (snd (receive_block toy 8 False blk1 node0))) = [genesis_toy, blk1]"
    by (simp add: node0_eq receive_block_def Let_def add_block_def last_block_def Block_def
        compute_hash_def toy_def toy_block_hash_def blk1_def genesis_toy_def monitor_def
        eval_nat_numeral)
  have again: "fst (receive_block toy 9 False blk1
          (receive_blocks toy [] (snd (receive_block toy 8 False blk1 node0)))) = None \<and>
     blockchain (snd (receive_block toy 9 False blk1
          (receive_blocks toy [] (snd (receive_block toy 8 False blk1 node0))))) =
     blockchain (receive_blocks toy [] (snd (receive_block toy 8 False blk1 node0)))"
    using receive_block_idempotent [of blk1 blk1
        "receive_blocks toy [] (snd (receive_block toy 8 False blk1 node0))" toy "[]" 8 False node0 9 False]
    by simp
  from first again show ?thesis by simp
qed

text \<open>
  The \<open>except\<close> path of \<open>receive_block\<close> after admission: \<open>blk_nokey\<close> links to the tip
  and carries its recomputed hash, so \<open>add_block\<close> appends it; its transaction has no
  \<open>tx_hash\<close> key, so \<open>tx["tx_hash"]\<close> raises and the call returns \<open>False\<close> with the chain
  grown. The same happens when the monitoring sink raises.
\<close>

lemma receive_block_false_after_append:
  "receive_block toy 8 False blk_nokey node0 =
     (Some False,
      node0\<lparr>seen_block_hashes := {hash blk_nokey},
             blockchain := \<lparr>chain = [genesis_toy, blk_nokey], pending_transactions = []\<rparr>\<rparr>)"
  by (simp add: node0_eq receive_block_def Let_def add_block_def last_block_def Block_def
      compute_hash_def toy_def toy_block_hash_def blk_nokey_def genesis_toy_def eval_nat_numeral)

lemma receive_block_false_on_db_error:
  "fst (receive_block toy 8 True blk1 node0) = Some False \<and>
   chain (blockchain (snd (receive_block toy 8 True blk1 node0))) = [genesis_toy, blk1]"
  by (simp add: node0_eq receive_block_def Let_def add_block_def last_block_def Block_def
      compute_hash_def toy_def toy_block_hash_def blk1_def genesis_toy_def monitor_def
      eval_nat_numeral)

lemma receive_block_rejected:
  assumes "hash b \<notin> seen_block_hashes n" and "chain (blockchain n) \<noteq> []"
    and "previous_hash b \<noteq> hash (last (chain (blockchain n))) \<or> hash b \<noteq> compute_hash H b"
  shows "receive_block H t e b n =
           (Some False, n\<lparr>seen_block_hashes := insert (hash b) (seen_block_hashes n)\<rparr>)"
proof -
  let ?b = "(Block H (index b) (previous_hash b) (transactions b) (timestamp b) (nonce b))
              \<lparr>hash := hash b\<rparr>"
  have eq: "?b = b" by (simp add: Block_def)
  have "add_block H b (blockchain n) = Inr (False, blockchain n)"
    using assms(2,3) by (auto simp: add_block_result)
  with assms(1) show ?thesis
    unfolding receive_block_def Let_def eq by simp
qed

text \<open>
  Claim C10. \<open>receive_block\<close> puts the block's hash into \<open>seen_block_hashes\<close> before it
  attempts admission, whatever the outcome of the call. So every later call with a block
  of the same hash, whatever blocks were received in between, returns at once with \<open>None\<close>
  (not a boolean), counts the block as dropped and does not call \<open>add_block\<close> again. In
  particular, when \<open>add_block\<close> rejected the block (it did not link to the tip, or its
  hash was not the recomputed one), the first call returned \<open>False\<close> with the ledger as it
  was, and the block is never admitted later, even when the chain has advanced so that it
  would now link to the tip.
\<close>

theorem receive_block_never_retries:
  assumes "hash b' = hash b"
    and "n2 = receive_blocks H bs (snd (receive_block H t e b n))"
  shows "hash b \<in> seen_block_hashes (snd (receive_block H t e b n)) \<and>
         receive_block H t' e' b' n2 =
           (None, monitor (Record_message (node_id n2) ''block'' 0 0 1) n2) \<and>
         (hash b \<notin> seen_block_hashes n \<and> chain (blockchain n) \<noteq> [] \<and>
          (previous_hash b \<noteq> hash (last (chain (blockchain n))) \<or>
           hash b \<noteq> compute_hash H b) \<longrightarrow>
            fst (receive_block H t e b n) = Some False \<and>
            blockchain (snd (receive_block H t e b n)) = blockchain n)"
proof -
  have "hash b' \<in> seen_block_hashes n2"
    using assms receive_block_marks [of b H t e n]
      receive_blocks_mono [of "snd (receive_block H t e b n)" H bs] by auto
  then have "receive_block H t' e' b' n2 =
           (None, monitor (Record_message (node_id n2) ''block'' 0 0 1) n2)"
    by (simp add: receive_block_seen)
  moreover have "hash b \<notin> seen_block_hashes n \<and> chain (blockchain n) \<noteq> [] \<and>
          (previous_hash b \<noteq> hash (last (chain (blockchain n))) \<or>
           hash b \<noteq> compute_hash H b) \<longrightarrow>
            fst (receive_block H t e b n) = Some False \<and>
            blockchain (snd (receive_block H t e b n)) = blockchain n"
    using receive_block_rejected [of b n H t e] by auto
  ultimately show ?thesis
    by (simp add: receive_block_marks)
qed

theorem receive_block_never_retries_witness:
  "hash blk2 = hash blk2 \<and>
   hash blk2 \<notin> seen_block_hashes node0 \<and> chain (blockchain node0) \<noteq> [] \<and>
   previous_hash blk2 \<noteq> hash (last (chain (blockchain node0))) \<and>
   fst (receive_block toy 7 False blk2 node0) = Some False \<and>
   blockchain (snd (receive_block toy 7 False blk2 node0)) = blockchain node0 \<and>
   receive_blocks toy [(8, False, blk1)] (snd (receive_block toy 7 False blk2 node0)) =
     node_advanced \<and>
   add_block toy blk2 (blockchain node_advanced) =
     Inr (True, \<lparr>chain = [genesis_toy, blk1, blk2], pending_transactions = []\<rparr>) \<and>
   receive_block toy 9 False blk2 node_advanced =
     (None, monitor (Record_message 0 ''block'' 0 0 1) node_advanced)"
proof -
  have pre: "hash blk2 \<notin> seen_block_hashes node0" "chain (blockchain node0) \<noteq> []"
    "previous_hash blk2 \<noteq> hash (last (chain (blockchain node0)))"
    by (simp_all add: node0_eq blk2_def genesis_toy_def)
  have n2: "node_advanced =
      receive_blocks toy [(8, False, blk1)] (snd (receive_block toy 7 False blk2 node0))"
    by (simp only: receive_blk2_node0 snd_conv receive_blk1_after_blk2)
  from receive_block_never_retries [OF refl n2, of 9 False] pre
  have "receive_block toy 9 False blk2 node_advanced =
     (None, monitor (Record_message (node_id node_advanced) ''block'' 0 0 1) node_advanced)"
    and "fst (receive_block toy 7 False blk2 node0) = Some False"
    and "blockchain (snd (receive_block toy 7 False blk2 node0)) = blockchain node0"
    by simp_all
  moreover have "node_id node_advanced = 0" by (simp add: node_advanced_def)
  ultimately show ?thesis using pre n2 blk2_links_now by simp
qed

section \<open>Proof-of-stake leader selection\<close>

lemma cumulative_stake_Cons:
  "cumulative_stake bal (v # vs) (Suc k) = stake_of bal v + cumulative_stake bal vs k"
  by (simp add: cumulative_stake_def)

lemma select_walk_Some_iff:
  "select_walk bal r c vs = Some v \<longleftrightarrow>
   (\<exists>i<length vs. vs ! i = v \<and> r \<le> of_int (c + cumulative_stake bal vs (Suc i)) \<and>
       (\<forall>j<i. \<not> r \<le> of_int (c + cumulative_stake bal vs (Suc j))))"
proof (induction vs arbitrary: c)
  case Nil
  show ?case by simp
next
  case (Cons w vs)
  show ?case
  proof (cases "r \<le> of_int (c + stake_of bal w)")
    case True
    have "(\<exists>i<length (w # vs). (w # vs) ! i = v \<and>
            r \<le> of_int (c + cumulative_stake bal (w # vs) (Suc i)) \<and>
            (\<forall>j<i. \<not> r \<le> of_int (c + cumulative_stake bal (w # vs) (Suc j)))) \<longleftrightarrow> w = v"
    proof
      assume "\<exists>i<length (w # vs). (w # vs) ! i = v \<and>
            r \<le> of_int (c + cumulative_stake bal (w # vs) (Suc i)) \<and>
            (\<forall>j<i. \<not> r \<le> of_int (c + cumulative_stake bal (w # vs) (Suc j)))"
      then obtain i where i: "i < length (w # vs)" "(w # vs) ! i = v"
        "\<forall>j<i. \<not> r \<le> of_int (c + cumulative_stake bal (w # vs) (Suc j))" by blast
      have "i = 0"
      proof (rule ccontr)
        assume "i \<noteq> 0"
        then have "0 < i" by simp
        with i(3) have "\<not> r \<le> of_int (c + cumulative_stake bal (w # vs) (Suc 0))" by blast
        with True show False by (simp add: cumulative_stake_def)
      qed
      with i(2) show "w = v" by simp
    next
      assume "w = v"
      with True show "\<exists>i<length (w # vs). (w # vs) ! i = v \<and>
            r \<le> of_int (c + cumulative_stake bal (w # vs) (Suc i)) \<and>
            (\<forall>j<i. \<not> r \<le> of_int (c + cumulative_stake bal (w # vs) (Suc j)))"
        by (intro exI [of _ 0]) (simp add: cumulative_stake_def)
    qed
    with True show ?thesis by (simp add: Let_def)
  next
    case False
    let ?c' = "c + stake_of bal w"
    have shift: "\<And>k. c + cumulative_stake bal (w # vs) (Suc k) = ?c' + cumulative_stake bal vs k"
      by (simp add: cumulative_stake_Cons)
    have "(\<exists>i<length (w # vs). (w # vs) ! i = v \<and>
            r \<le> of_int (c + cumulative_stake bal (w # vs) (Suc i)) \<and>
            (\<forall>j<i. \<not> r \<le> of_int (c + cumulative_stake bal (w # vs) (Suc j)))) \<longleftrightarrow>
          (\<exists>i<length vs. vs ! i = v \<and> r \<le> of_int (?c' + cumulative_stake bal vs (Suc i)) \<and>
            (\<forall>j<i. \<not> r \<le> of_int (?c' + cumulative_stake bal vs (Suc j))))"
      (is "?L \<longleftrightarrow> ?R")
    proof
      assume ?L
      then obtain i where i: "i < length (w # vs)" "(w # vs) ! i = v"
        "r \<le> of_int (c + cumulative_stake bal (w # vs) (Suc i))"
        "\<forall>j<i. \<not> r \<le> of_int (c + cumulative_stake bal (w # vs) (Suc j))" by blast
      have "i \<noteq> 0"
      proof
        assume "i = 0"
        with i(3) False show False by (simp add: cumulative_stake_def)
      qed
      then obtain k where k: "i = Suc k" by (cases i) auto
      have "\<forall>j<k. \<not> r \<le> of_int (?c' + cumulative_stake bal vs (Suc j))"
      proof (intro allI impI)
        fix j assume "j < k"
        then have "Suc j < i" using k by simp
        with i(4) have "\<not> r \<le> of_int (c + cumulative_stake bal (w # vs) (Suc (Suc j)))" by blast
        then show "\<not> r \<le> of_int (?c' + cumulative_stake bal vs (Suc j))"
          using shift [of "Suc j"] by simp
      qed
      moreover have "r \<le> of_int (?c' + cumulative_stake bal vs (Suc k))"
        using i(3) k shift [of "Suc k"] by simp
      ultimately show ?R using i(1,2) k by auto
    next
      assume ?R
      then obtain k where k: "k < length vs" "vs ! k = v"
        "r \<le> of_int (?c' + cumulative_stake bal vs (Suc k))"
        "\<forall>j<k. \<not> r \<le> of_int (?c' + cumulative_stake bal vs (Suc j))" by blast
      have "\<forall>j<Suc k. \<not> r \<le> of_int (c + cumulative_stake bal (w # vs) (Suc j))"
      proof (intro allI impI)
        fix j assume j: "j < Suc k"
        show "\<not> r \<le> of_int (c + cumulative_stake bal (w # vs) (Suc j))"
        proof (cases j)
          case 0
          with False show ?thesis by (simp add: cumulative_stake_def)
        next
          case (Suc m)
          with j have "m < k" by simp
          with k(4) have "\<not> r \<le> of_int (?c' + cumulative_stake bal vs (Suc m))" by blast
          then show ?thesis using shift [of "Suc m"] Suc by simp
        qed
      qed
      moreover have "r \<le> of_int (c + cumulative_stake bal (w # vs) (Suc (Suc k)))"
        using k(3) shift [of "Suc k"] by simp
      ultimately show ?L using k(1,2) by (intro exI [of _ "Suc k"]) simp
    qed
    with False Cons.IH [of ?c'] show ?thesis by (simp add: Let_def)
  qed
qed


lemma mine_pending_no_add:
  "chain bc \<noteq> [] \<Longrightarrow>
   mine_pending_transactions H m n False t1 t2 bc =
     Inr (Block H (int (length (chain bc))) (hash (last (chain bc)))
            (pending_transactions bc @ [Transaction H Network m 1 None t1]) t2 n,
          bc\<lparr>pending_transactions := pending_transactions bc @ [Transaction H Network m 1 None t1]\<rparr>)"
  by (simp add: mine_pending_transactions_def last_block_def Let_def Block_rehash)

lemma create_block_empty: "mempool n = [] \<Longrightarrow> create_block H k w t0 t1 t2 n = Inr (None, n)"
  by (simp add: create_block_def)

lemma create_block_nonempty:
  assumes "mempool n \<noteq> []" and "chain (blockchain n) \<noteq> []"
  shows "\<exists>b n'. create_block H k False t0 t1 t2 n = Inr (Some b, n') \<and>
           index b = int (length (chain (blockchain n))) \<and>
           previous_hash b = hash (last (chain (blockchain n))) \<and>
           network n' = network n \<and> node_id n' = node_id n \<and> mempool n' = mempool n \<and>
           chain (blockchain n') = chain (blockchain n)"
  using assms
  by (simp add: create_block_def Let_def mine_pending_no_add monitor_def Block_fields)

lemma select_validator_fst:
  "fst (select_validator r s) = select_walk (balances s) r 0 (validator_set s)"
  by (simp add: select_validator_def split: option.splits)

lemma select_validator_node: "pos_node (snd (select_validator r s)) = pos_node s"
  by (simp add: select_validator_def split: option.splits)

lemma can_propose_fst:
  "fst (can_propose r s) = (fst (select_validator r s) = Some (node_id (pos_node s)))"
  by (auto simp: can_propose_def split: prod.splits)

lemma can_propose_node: "pos_node (snd (can_propose r s)) = pos_node s"
  using select_validator_node [of r s] by (auto simp: can_propose_def split: prod.splits)

lemma propose_not_selected:
  "\<not> fst (can_propose r s) \<Longrightarrow>
   fst (pos_propose_block H C r t0 t1 t2 s) = Inr None \<and>
   pos_node (snd (pos_propose_block H C r t0 t1 t2 s)) = pos_node s"
  using can_propose_node [of r s]
  by (cases "can_propose r s") (simp add: pos_propose_block_def)

lemma propose_empty_mempool:
  "fst (can_propose r s) \<Longrightarrow> mempool (pos_node s) = [] \<Longrightarrow>
   fst (pos_propose_block H C r t0 t1 t2 s) = Inr None \<and>
   pos_node (snd (pos_propose_block H C r t0 t1 t2 s)) = pos_node s"
  using can_propose_node [of r s]
  by (cases "can_propose r s") (auto simp: pos_propose_block_def create_block_empty)

lemma propose_broadcasts:
  assumes "fst (can_propose r s)" and "mempool (pos_node s) \<noteq> []"
    and "chain (blockchain (pos_node s)) \<noteq> []"
  shows "\<exists>b sg. network (pos_node (snd (pos_propose_block H C r t0 t1 t2 s))) =
            map_option (\<lambda>cs. cs @ [Broadcast_pos_message
               \<lparr>vm_block = Some b, vm_signature = Some sg,
                vm_sender_id = Some (node_id (pos_node s))\<rparr>]) (network (pos_node s)) \<and>
          index b = int (length (chain (blockchain (pos_node s)))) \<and>
          previous_hash b = hash (last (chain (blockchain (pos_node s))))"
proof -
  obtain s1 where cp: "can_propose r s = (True, s1)"
    using assms(1) by (cases "can_propose r s") simp
  then have n1: "pos_node s1 = pos_node s"
    using can_propose_node [of r s] by simp
  from create_block_nonempty [OF assms(2,3), of H 0 t0 t1 t2] obtain b n'
    where cb: "create_block H 0 False t0 t1 t2 (pos_node s) = Inr (Some b, n')"
      and b: "index b = int (length (chain (blockchain (pos_node s))))"
        "previous_hash b = hash (last (chain (blockchain (pos_node s))))"
      and n': "network n' = network (pos_node s)" "node_id n' = node_id (pos_node s)"
    by blast
  show ?thesis
    apply (rule exI [of _ b])
    apply (rule exI [of _ "sign_message C (private_key n') (str_block C b)"])
    apply (simp add: pos_propose_block_def cp n1 cb Let_def pos_monitor_def transmit_def b n')
    done
qed

text \<open>
  Claim C9, amended. \<open>total_staked\<close> is the sum of all staking balances.
  \<open>select_validator\<close>, on the value \<open>r\<close> drawn by \<open>random.uniform(0, total_staked)\<close>,
  walks \<open>validator_set\<close> accumulating each validator's stake and returns the first
  validator whose cumulative sum is \<open>\<ge> r\<close>. The node attempts a proposal exactly when its
  own \<open>node_id\<close> equals this pick: when it does not, \<open>propose_block\<close> returns \<open>None\<close> and
  leaves the node as it is; when it does, a block is built and broadcast only if the
  mempool is non-empty, and with an empty mempool the call again returns \<open>None\<close> and
  leaves the node as it is.
\<close>

theorem pos_leader_selection:
  "total_staked (PoSConsensus n vs bal mon) = sum_list (map snd bal) \<and>
   (fst (select_validator r s) = Some v \<longleftrightarrow>
      (\<exists>i<length (validator_set s). validator_set s ! i = v \<and>
          r \<le> of_int (cumulative_stake (balances s) (validator_set s) (Suc i)) \<and>
          (\<forall>j<i. \<not> r \<le> of_int (cumulative_stake (balances s) (validator_set s) (Suc j))))) \<and>
   fst (can_propose r s) = (fst (select_validator r s) = Some (node_id (pos_node s))) \<and>
   (\<not> fst (can_propose r s) \<longrightarrow>
      fst (pos_propose_block H C r t0 t1 t2 s) = Inr None \<and>
      pos_node (snd (pos_propose_block H C r t0 t1 t2 s)) = pos_node s) \<and>
   (fst (can_propose r s) \<and> mempool (pos_node s) = [] \<longrightarrow>
      fst (pos_propose_block H C r t0 t1 t2 s) = Inr None \<and>
      pos_node (snd (pos_propose_block H C r t0 t1 t2 s)) = pos_node s) \<and>
   (fst (can_propose r s) \<and> mempool (pos_node s) \<noteq> [] \<and>
    chain (blockchain (pos_node s)) \<noteq> [] \<longrightarrow>
      (\<exists>b sg. network (pos_node (snd (pos_propose_block H C r t0 t1 t2 s))) =
            map_option (\<lambda>cs. cs @ [Broadcast_pos_message
               \<lparr>vm_block = Some b, vm_signature = Some sg,
                vm_sender_id = Some (node_id (pos_node s))\<rparr>]) (network (pos_node s)) \<and>
          index b = int (length (chain (blockchain (pos_node s)))) \<and>
          previous_hash b = hash (last (chain (blockchain (pos_node s))))))"
proof (intro conjI impI)
  show "total_staked (PoSConsensus n vs bal mon) = sum_list (map snd bal)"
    by (simp add: PoSConsensus_def)
  show "fst (select_validator r s) = Some v \<longleftrightarrow>
      (\<exists>i<length (validator_set s). validator_set s ! i = v \<and>
          r \<le> of_int (cumulative_stake (balances s) (validator_set s) (Suc i)) \<and>
          (\<forall>j<i. \<not> r \<le> of_int (cumulative_stake (balances s) (validator_set s) (Suc j))))"
    using select_walk_Some_iff [of "balances s" r 0 "validator_set s" v]
    by (simp add: select_validator_fst)
  show "fst (can_propose r s) = (fst (select_validator r s) = Some (node_id (pos_node s)))"
    by (rule can_propose_fst)
next
  assume "\<not> fst (can_propose r s)"
  then show "fst (pos_propose_block H C r t0 t1 t2 s) = Inr None"
    and "pos_node (snd (pos_propose_block H C r t0 t1 t2 s)) = pos_node s"
    using propose_not_selected [of r s H C t0 t1 t2] by simp_all
next
  assume "fst (can_propose r s) \<and> mempool (pos_node s) = []"
  then show "fst (pos_propose_block H C r t0 t1 t2 s) = Inr None"
    and "pos_node (snd (pos_propose_block H C r t0 t1 t2 s)) = pos_node s"
    using propose_empty_mempool [of r s H C t0 t1 t2] by simp_all
next
  assume "fst (can_propose r s) \<and> mempool (pos_node s) \<noteq> [] \<and>
    chain (blockchain (pos_node s)) \<noteq> []"
  then show "\<exists>b sg. network (pos_node (snd (pos_propose_block H C r t0 t1 t2 s))) =
            map_option (\<lambda>cs. cs @ [Broadcast_pos_message
               \<lparr>vm_block = Some b, vm_signature = Some sg,
                vm_sender_id = Some (node_id (pos_node s))\<rparr>]) (network (pos_node s)) \<and>
          index b = int (length (chain (blockchain (pos_node s)))) \<and>
          previous_hash b = hash (last (chain (blockchain (pos_node s))))"
    using propose_broadcasts [of r s H C t0 t1 t2] by simp
qed

lemma pos0_eq: "pos0 = \<lparr>pos_node = node0, validator_set = [0, 1], balances = [(0, 10), (1, 10)],
      total_staked = 20, current_validator = None,
      pos_malicious_nodes = {}, pos_received_blocks = {}, pos_monitoring = None\<rparr>"
  by (simp add: pos0_def PoSConsensus_def)

text \<open>
  Claim C9 as stated fails in its last clause: in \<open>pos0\<close> the pick for \<open>r = 5\<close> is node 0
  itself, but its mempool is empty, so \<open>propose_block\<close> returns \<open>None\<close> and nothing is
  broadcast.
\<close>

theorem pos_propose_counterexample:
  "fst (select_validator 5 pos0) = Some 0 \<and> node_id (pos_node pos0) = 0 \<and>
   pos_propose_block toy toy_crypto 5 1 2 3 pos0 = (Inr None, pos0\<lparr>current_validator := Some 0\<rparr>) \<and>
   network (pos_node pos0) = Some []"
  by (simp add: pos0_eq pos_propose_block_def can_propose_def select_validator_def Let_def
      stake_of_def create_block_def node0_eq)

lemma pos1_eq:
  "pos1 =
     \<lparr>pos_node = node0\<lparr>mempool := [tx_a],
                        monitoring := Some [Record_message 0 ''transaction'' 0 1 0],
                        seen_transaction_hashes := {Some ''aaaaa''}, trade_success_count := 1\<rparr>,
      validator_set = [0, 1], balances = [(0, 10), (1, 10)],
      total_staked = 20, current_validator = None,
      pos_malicious_nodes = {}, pos_received_blocks = {}, pos_monitoring = None\<rparr>"
  by (simp add: pos1_def PoSConsensus_def node0_eq receive_transaction_def Let_def monitor_def
      log_trade_success_def tx_a_def)

lemma pos1_propose:
  "network (pos_node (snd (pos_propose_block toy toy_crypto 5 1 2 3 pos1))) =
     Some [Broadcast_pos_message
             \<lparr>vm_block = Some proposal1, vm_signature = Some ''priv0#itt//0'',
              vm_sender_id = Some 0\<rparr>]"
  by (simp add: pos1_eq pos_propose_block_def can_propose_def select_validator_def Let_def
      stake_of_def create_block_def node0_eq mine_pending_transactions_def last_block_def
      Transaction_def tx_compute_hash_def Block_def compute_hash_def toy_def toy_block_hash_def
      toy_tx_hash_def toy_crypto_def pos_monitor_def transmit_def monitor_def proposal1_def
      tx_a_def genesis_toy_def eval_nat_numeral)

lemma pos1_facts:
  "fst (can_propose 5 pos1)" "\<not> fst (can_propose 15 pos1)" "mempool (pos_node pos1) \<noteq> []"
  "chain (blockchain (pos_node pos1)) \<noteq> []" "fst (select_validator 5 pos1) = Some 0"
  "validator_set pos1 = [0, 1]"
  "cumulative_stake (balances pos1) (validator_set pos1) (Suc 0) = 10"
  by (simp_all add: pos1_eq can_propose_def select_validator_def Let_def stake_of_def node0_eq
      cumulative_stake_def)

theorem pos_leader_selection_witness:
  "total_staked pos1 = 20 \<and>
   (0 < length (validator_set pos1) \<and> validator_set pos1 ! 0 = 0 \<and>
    (5::rat) \<le> of_int (cumulative_stake (balances pos1) (validator_set pos1) (Suc 0))) \<and>
   fst (select_validator 5 pos1) = Some 0 \<and>
   fst (can_propose 5 pos1) \<and> mempool (pos_node pos1) \<noteq> [] \<and>
   chain (blockchain (pos_node pos1)) \<noteq> [] \<and>
   network (pos_node (snd (pos_propose_block toy toy_crypto 5 1 2 3 pos1))) =
     Some [Broadcast_pos_message
             \<lparr>vm_block = Some proposal1, vm_signature = Some ''priv0#itt//0'',
              vm_sender_id = Some 0\<rparr>] \<and>
   \<not> fst (can_propose 15 pos1) \<and>
   fst (pos_propose_block toy toy_crypto 15 1 2 3 pos1) = Inr None \<and>
   pos_node (snd (pos_propose_block toy toy_crypto 15 1 2 3 pos1)) = pos_node pos1"
proof -
  have skip: "fst (pos_propose_block toy toy_crypto 15 1 2 3 pos1) = Inr None \<and>
      pos_node (snd (pos_propose_block toy toy_crypto 15 1 2 3 pos1)) = pos_node pos1"
    using pos_leader_selection [where r = 15 and s = pos1 and H = toy and C = toy_crypto
        and ?t0.0 = 1 and ?t1.0 = 2 and ?t2.0 = 3] pos1_facts(2)
    by blast
  have total: "total_staked pos1 = 20"
    using pos_leader_selection [where n = "receive_transaction tx_a node0" and vs = "[0, 1]"
        and bal = "[(0, 10), (1, 10)]" and mon = None]
    by (simp add: pos1_def)
  from skip total pos1_facts pos1_propose show ?thesis by simp
qed

section \<open>Proof-of-authority reception\<close>

lemma poa_receive_message_raises:
  assumes "vm_block msg = Some b" and "vm_signature msg = Some sg" and "sg \<noteq> []"
    and "vm_sender_id msg = Some i" and "i \<noteq> 0" and "i \<in> set (validators s)"
    and "public_keys (poa_node s) i = Some pem" and "pem \<noteq> []"
  shows "poa_receive_message H C now db_error msg s =
           (Some AttributeError,
            poa_monitor (Record_message (node_id (poa_node s)) ''poa_message'' 0 1 0) s)"
  using assms
  by (simp add: poa_receive_message_def Let_def poa_monitor_def function_getattr_def)

text \<open>
  Claim C5 fails on the code. The message \<open>poa_msg1\<close> comes from validator 1, whose key is
  registered, carries a valid signature and a block that links to the tip: the handler
  raises \<open>AttributeError\<close> at \<open>verify_signature.load_public_key\<close>, before any signature
  check, and leaves the chain and the set of received blocks as they were.
\<close>

theorem poa_receive_message_failing_input:
  "1 \<in> set (validators poa1) \<and> public_keys (poa_node poa1) 1 = Some ''k1'' \<and>
   verify_signature toy_crypto ''k1'' (str_block toy_crypto blk1) ''k1#i//0'' \<and>
   previous_hash blk1 = hash (last (chain (blockchain (poa_node poa1)))) \<and>
   poa_receive_message toy toy_crypto 9 False poa_msg1 poa1 =
     (Some AttributeError, poa_monitor (Record_message 0 ''poa_message'' 0 1 0) poa1) \<and>
   chain (blockchain (poa_node (snd (poa_receive_message toy toy_crypto 9 False poa_msg1 poa1)))) =
     [genesis_toy] \<and>
   poa_received_blocks (snd (poa_receive_message toy toy_crypto 9 False poa_msg1 poa1)) = {}"
  by (simp add: poa_receive_message_def Let_def poa_monitor_def function_getattr_def poa1_def
      PoAConsensus_def poa_msg1_def node0_eq toy_crypto_def blk1_def genesis_toy_def)

section \<open>PBFT message handling\<close>

lemma current_height_simps [simp]:
  "current_height (s\<lparr>pbft_monitoring := m\<rparr>) = current_height s"
  "current_height (s\<lparr>received_messages := r\<rparr>) = current_height s"
  "current_height (s\<lparr>prepared := p\<rparr>) = current_height s"
  "current_height (s\<lparr>committed := c\<rparr>) = current_height s"
  by (simp_all add: current_height_def)

lemma quorum_simps [simp]:
  "quorum (s\<lparr>pbft_monitoring := m\<rparr>) = quorum s"
  "quorum (s\<lparr>received_messages := r\<rparr>) = quorum s"
  "quorum (s\<lparr>prepared := p\<rparr>) = quorum s"
  "quorum (s\<lparr>committed := c\<rparr>) = quorum s"
  by (simp_all add: quorum_def)

lemma pbft_receive_message_accepted:
  assumes "public_keys (pbft_node s) (msg_node_id msg) = Some pem" and "pem \<noteq> []"
    and "load_public_key C pem = Inr key"
    and "verify_signature C key
           (pbft_message_data C (msg_type msg) (msg_view msg) (msg_seq msg) (msg_node_id msg)
              (msg_block msg)) (msg_signature msg)"
    and "received_messages s (msg_node_id msg, msg_type msg, msg_seq msg) = None"
    and "s2 = s\<lparr>pbft_monitoring := map_option
                     (\<lambda>cs. cs @ [Record_message (node_id (pbft_node s)) (msg_type msg) 0 1 0])
                     (pbft_monitoring s),
                  received_messages := (received_messages s)
                     ((msg_node_id msg, msg_type msg, msg_seq msg) \<mapsto> msg)\<rparr>"
  shows "pbft_receive_message H C now db_error msg s =
           (if msg_type msg = ''PRE_PREPARE'' then on_pre_prepare C now msg s2
            else if msg_type msg = ''PREPARE'' then on_prepare C msg s2
            else if msg_type msg = ''COMMIT'' then on_commit H C now db_error msg s2
            else s2)"
  using assms
  by (simp add: pbft_receive_message_def Let_def pbft_monitor_def)

text \<open>
  Claim C4. A node that receives a PRE_PREPARE with a valid signature of a known sender,
  not seen before under its \<open>(sender, type, seq)\<close> key, whose \<open>block.index\<close> is above
  \<open>tip.index + 1\<close> (\<open>current_height\<close> is \<open>tip.index\<close>), hands the transport a
  \<open>sync_request\<close> with \<open>start = tip.index + 1\<close> and \<open>end = block.index\<close> and returns: no
  message is emitted (\<open>message_log\<close> is unchanged and the transport gets nothing else), and
  \<open>prepared\<close>, \<open>committed\<close> and the ledger are as before.
\<close>

theorem pre_prepare_gap_triggers_sync:
  assumes "public_keys (pbft_node s) (msg_node_id msg) = Some pem" and "pem \<noteq> []"
    and "load_public_key C pem = Inr key"
    and "verify_signature C key
           (pbft_message_data C (msg_type msg) (msg_view msg) (msg_seq msg) (msg_node_id msg)
              (msg_block msg)) (msg_signature msg)"
    and "received_messages s (msg_node_id msg, msg_type msg, msg_seq msg) = None"
    and "msg_type msg = ''PRE_PREPARE''" and "msg_block msg = Some b"
    and "index b > current_height s + 1"
  shows "network (pbft_node (pbft_receive_message H C now db_error msg s)) =
           map_option (\<lambda>cs. cs @ [Broadcast_sync_request (current_height s + 1) (index b)])
             (network (pbft_node s)) \<and>
         message_log (pbft_receive_message H C now db_error msg s) = message_log s \<and>
         prepared (pbft_receive_message H C now db_error msg s) = prepared s \<and>
         committed (pbft_receive_message H C now db_error msg s) = committed s \<and>
         blockchain (pbft_node (pbft_receive_message H C now db_error msg s)) = blockchain (pbft_node s) \<and>
         (chain (blockchain (pbft_node s)) \<noteq> [] \<longrightarrow>
            current_height s = index (last (chain (blockchain (pbft_node s)))))"
proof -
  let ?s2 = "s\<lparr>pbft_monitoring := map_option
                     (\<lambda>cs. cs @ [Record_message (node_id (pbft_node s)) (msg_type msg) 0 1 0])
                     (pbft_monitoring s),
                  received_messages := (received_messages s)
                     ((msg_node_id msg, msg_type msg, msg_seq msg) \<mapsto> msg)\<rparr>"
  have "pbft_receive_message H C now db_error msg s = on_pre_prepare C now msg ?s2"
    using pbft_receive_message_accepted [OF assms(1-5) refl, of H now db_error] assms(6) by simp
  also have "\<dots> = trigger_sync (current_height s + 1) (index b) ?s2"
    using assms(7,8) by (simp add: on_pre_prepare_def)
  finally have r: "pbft_receive_message H C now db_error msg s =
      trigger_sync (current_height s + 1) (index b) ?s2" .
  show ?thesis unfolding r
    by (cases "network (pbft_node s)")
       (simp_all add: trigger_sync_def Let_def pbft_monitor_def transmit_def current_height_def)
qed

text \<open>
  Claim C3. On a PREPARE with a valid signature of a known sender, not seen before under its
  \<open>(sender, type, seq)\<close> key, with \<open>block.index \<le> tip.index + 1\<close>, the node adds the
  sender to \<open>prepared[seq]\<close>; if then \<open>|prepared[seq]| \<ge> 2 * (N div 3) + 1\<close> it emits a
  COMMIT for the block (logged and handed to the transport) and adds its own node id to
  \<open>committed[seq]\<close>; below the quorum it emits nothing and leaves \<open>committed\<close> alone.
\<close>

theorem prepare_quorum_commit:
  assumes "public_keys (pbft_node s) (msg_node_id msg) = Some pem" and "pem \<noteq> []"
    and "load_public_key C pem = Inr key"
    and "verify_signature C key
           (pbft_message_data C (msg_type msg) (msg_view msg) (msg_seq msg) (msg_node_id msg)
              (msg_block msg)) (msg_signature msg)"
    and "received_messages s (msg_node_id msg, msg_type msg, msg_seq msg) = None"
    and "msg_type msg = ''PREPARE''" and "msg_block msg = Some b"
    and "index b \<le> current_height s + 1"
    and "votes = finsert (msg_node_id msg)
                   (case prepared s (msg_seq msg) of None \<Rightarrow> {||} | Some S \<Rightarrow> S)"
    and "commit = \<lparr>msg_type = ''COMMIT'', msg_view = current_view s, msg_seq = msg_seq msg,
                   msg_node_id = node_id (pbft_node s), msg_block = Some b,
                   msg_signature = sign_message C (private_key (pbft_node s))
                     (pbft_message_data C ''COMMIT'' (current_view s) (msg_seq msg)
                        (node_id (pbft_node s)) (Some b))\<rparr>"
  shows "prepared (pbft_receive_message H C now db_error msg s) = (prepared s)(msg_seq msg \<mapsto> votes) \<and>
         (if int (fcard votes) \<ge> 2 * (total_nodes s div 3) + 1 then
            message_log (pbft_receive_message H C now db_error msg s) = message_log s @ [commit] \<and>
            network (pbft_node (pbft_receive_message H C now db_error msg s)) =
              map_option (\<lambda>cs. cs @ [Broadcast_pbft_message commit]) (network (pbft_node s)) \<and>
            committed (pbft_receive_message H C now db_error msg s) =
              (committed s)(msg_seq msg \<mapsto> finsert (node_id (pbft_node s))
                 (case committed s (msg_seq msg) of None \<Rightarrow> {||} | Some S \<Rightarrow> S))
          else
            message_log (pbft_receive_message H C now db_error msg s) = message_log s \<and>
            network (pbft_node (pbft_receive_message H C now db_error msg s)) = network (pbft_node s) \<and>
            committed (pbft_receive_message H C now db_error msg s) = committed s)"
proof -
  let ?s2 = "s\<lparr>pbft_monitoring := map_option
                     (\<lambda>cs. cs @ [Record_message (node_id (pbft_node s)) (msg_type msg) 0 1 0])
                     (pbft_monitoring s),
                  received_messages := (received_messages s)
                     ((msg_node_id msg, msg_type msg, msg_seq msg) \<mapsto> msg)\<rparr>"
  have r: "pbft_receive_message H C now db_error msg s = on_prepare C msg ?s2"
    using pbft_receive_message_accepted [OF assms(1-5) refl, of H now db_error] assms(6) by simp
  show ?thesis unfolding r using assms(7-10)
    by (simp add: on_prepare_def Let_def add_vote_def vote_count_def quorum_def
        send_commit_def broadcast_def pbft_sign_message_def transmit_def pbft_monitor_def)
qed


lemma node1_eq:
  "node1 =
     \<lparr>node_id = 1, blockchain = \<lparr>chain = [genesis_toy], pending_transactions = []\<rparr>,
      mempool = [], network = Some [], monitoring = Some [],
      public_keys = [0 \<mapsto> ''k0'', 1 \<mapsto> ''k1'', 2 \<mapsto> ''k2'', 3 \<mapsto> ''k3''],
      private_key = ''k1'',
      seen_transaction_hashes = {}, seen_block_hashes = {},
      trade_success_count = 0, trade_failure_count = 0, trade_confirmation_times = [],
      withheld_block = None\<rparr>"
  by (simp add: node1_def Node_def start_network_def Blockchain_toy)

lemma pbft1_fields:
  "pbft_node pbft1 = node1" "total_nodes pbft1 = 4" "current_view pbft1 = 0"
  "prepared pbft1 = [1 \<mapsto> {|0, 2|}]" "committed pbft1 = Map.empty" "message_log pbft1 = []"
  "received_messages pbft1 = Map.empty"
  by (simp_all add: pbft1_def PbftConsensus_def)

lemma current_height_pbft1: "current_height pbft1 = 0"
  by (simp add: current_height_def pbft1_fields node1_eq genesis_toy_def)

theorem pre_prepare_gap_triggers_sync_witness:
  "public_keys (pbft_node pbft1) (msg_node_id pre_prepare_gap) = Some ''k0'' \<and>
   load_public_key toy_crypto ''k0'' = Inr ''k0'' \<and>
   verify_signature toy_crypto ''k0''
     (pbft_message_data toy_crypto (msg_type pre_prepare_gap) (msg_view pre_prepare_gap)
        (msg_seq pre_prepare_gap) (msg_node_id pre_prepare_gap) (msg_block pre_prepare_gap))
     (msg_signature pre_prepare_gap) \<and>
   index (last (chain (blockchain (pbft_node pbft1)))) = 0 \<and>
   index blk3 > current_height pbft1 + 1 \<and>
   network (pbft_node (pbft_receive_message toy toy_crypto 9 False pre_prepare_gap pbft1)) =
     Some [Broadcast_sync_request 1 3] \<and>
   message_log (pbft_receive_message toy toy_crypto 9 False pre_prepare_gap pbft1) = [] \<and>
   prepared (pbft_receive_message toy toy_crypto 9 False pre_prepare_gap pbft1) = [1 \<mapsto> {|0, 2|}]"
proof -
  have pk: "public_keys (pbft_node pbft1) (msg_node_id pre_prepare_gap) = Some ''k0''"
    by (simp add: pbft1_fields node1_eq pre_prepare_gap_def)
  have ne: "''k0'' \<noteq> []" by simp
  have ld: "load_public_key toy_crypto ''k0'' = Inr ''k0''"
    by (simp add: toy_crypto_def)
  have vf: "verify_signature toy_crypto ''k0''
     (pbft_message_data toy_crypto (msg_type pre_prepare_gap) (msg_view pre_prepare_gap)
        (msg_seq pre_prepare_gap) (msg_node_id pre_prepare_gap) (msg_block pre_prepare_gap))
     (msg_signature pre_prepare_gap)"
    by (simp add: toy_crypto_def pre_prepare_gap_def blk3_def eval_nat_numeral)
  have fr: "received_messages pbft1
      (msg_node_id pre_prepare_gap, msg_type pre_prepare_gap, msg_seq pre_prepare_gap) = None"
    by (simp add: pbft1_fields)
  have ty: "msg_type pre_prepare_gap = ''PRE_PREPARE''" by (simp add: pre_prepare_gap_def)
  have bl: "msg_block pre_prepare_gap = Some blk3" by (simp add: pre_prepare_gap_def)
  have gap: "index blk3 > current_height pbft1 + 1"
    by (simp add: current_height_pbft1 blk3_def)
  have tip: "index (last (chain (blockchain (pbft_node pbft1)))) = 0"
    by (simp add: pbft1_fields node1_eq genesis_toy_def)
  from pre_prepare_gap_triggers_sync [OF pk ne ld vf fr ty bl gap, of toy 9 False]
  have "network (pbft_node (pbft_receive_message toy toy_crypto 9 False pre_prepare_gap pbft1)) =
     Some [Broadcast_sync_request 1 3] \<and>
   message_log (pbft_receive_message toy toy_crypto 9 False pre_prepare_gap pbft1) = [] \<and>
   prepared (pbft_receive_message toy toy_crypto 9 False pre_prepare_gap pbft1) = [1 \<mapsto> {|0, 2|}]"
    by (simp add: current_height_pbft1 pbft1_fields node1_eq blk3_def)
  with pk ld vf tip gap show ?thesis by simp
qed

theorem prepare_quorum_commit_witness:
  "public_keys (pbft_node pbft1) (msg_node_id prepare3) = Some ''k3'' \<and>
   verify_signature toy_crypto ''k3''
     (pbft_message_data toy_crypto (msg_type prepare3) (msg_view prepare3)
        (msg_seq prepare3) (msg_node_id prepare3) (msg_block prepare3))
     (msg_signature prepare3) \<and>
   index blk1 \<le> current_height pbft1 + 1 \<and>
   int (fcard {|3, 0, 2 :: int|}) \<ge> 2 * (total_nodes pbft1 div 3) + 1 \<and>
   prepared (pbft_receive_message toy toy_crypto 9 False prepare3 pbft1) = [1 \<mapsto> {|3, 0, 2|}] \<and>
   message_log (pbft_receive_message toy toy_crypto 9 False prepare3 pbft1) = [commit1] \<and>
   network (pbft_node (pbft_receive_message toy toy_crypto 9 False prepare3 pbft1)) =
     Some [Broadcast_pbft_message commit1] \<and>
   committed (pbft_receive_message toy toy_crypto 9 False prepare3 pbft1) = [1 \<mapsto> {|1|}]"
proof -
  have pk: "public_keys (pbft_node pbft1) (msg_node_id prepare3) = Some ''k3''"
    by (simp add: pbft1_fields node1_eq prepare3_def)
  have ne: "''k3'' \<noteq> []" by simp
  have ld: "load_public_key toy_crypto ''k3'' = Inr ''k3''"
    by (simp add: toy_crypto_def)
  have vf: "verify_signature toy_crypto ''k3''
     (pbft_message_data toy_crypto (msg_type prepare3) (msg_view prepare3)
        (msg_seq prepare3) (msg_node_id prepare3) (msg_block prepare3))
     (msg_signature prepare3)"
    by (simp add: toy_crypto_def prepare3_def blk1_def eval_nat_numeral)
  have fr: "received_messages pbft1
      (msg_node_id prepare3, msg_type prepare3, msg_seq prepare3) = None"
    by (simp add: pbft1_fields)
  have ty: "msg_type prepare3 = ''PREPARE''" by (simp add: prepare3_def)
  have bl: "msg_block prepare3 = Some blk1" by (simp add: prepare3_def)
  have le: "index blk1 \<le> current_height pbft1 + 1"
    by (simp add: current_height_pbft1 blk1_def)
  have votes: "{|3, 0, 2 :: int|} = finsert (msg_node_id prepare3)
                   (case prepared pbft1 (msg_seq prepare3) of None \<Rightarrow> {||} | Some S \<Rightarrow> S)"
    by (simp add: pbft1_fields prepare3_def)
  have cm: "commit1 = \<lparr>msg_type = ''COMMIT'', msg_view = current_view pbft1,
                   msg_seq = msg_seq prepare3,
                   msg_node_id = node_id (pbft_node pbft1), msg_block = Some blk1,
                   msg_signature = sign_message toy_crypto (private_key (pbft_node pbft1))
                     (pbft_message_data toy_crypto ''COMMIT'' (current_view pbft1)
                        (msg_seq prepare3) (node_id (pbft_node pbft1)) (Some blk1))\<rparr>"
    by (simp add: commit1_def pbft1_fields node1_eq prepare3_def toy_crypto_def blk1_def
        eval_nat_numeral)
  have q: "int (fcard {|3, 0, 2 :: int|}) \<ge> 2 * (total_nodes pbft1 div 3) + 1"
    by (simp add: pbft1_fields fcard_finsert_if)
  from prepare_quorum_commit [OF pk ne ld vf fr ty bl le votes cm, of toy 9 False] q
  have "prepared (pbft_receive_message toy toy_crypto 9 False prepare3 pbft1) = [1 \<mapsto> {|3, 0, 2|}] \<and>
   message_log (pbft_receive_message toy toy_crypto 9 False prepare3 pbft1) = [commit1] \<and>
   network (pbft_node (pbft_receive_message toy toy_crypto 9 False prepare3 pbft1)) =
     Some [Broadcast_pbft_message commit1] \<and>
   committed (pbft_receive_message toy toy_crypto 9 False prepare3 pbft1) = [1 \<mapsto> {|1|}]"
    by (simp add: pbft1_fields node1_eq prepare3_def)
  with pk vf le q show ?thesis by simp
qed

section \<open>Chain integrity at the node\<close>

text \<open>
  A node changes its chain only through \<open>add_block\<close>, called by \<open>receive_block\<close>, so the
  invariant of the ledger carries over to every run of \<open>receive_block\<close> calls on a fresh
  node.
\<close>

lemma receive_block_preserves:
  assumes "chain (blockchain n) \<noteq> []" and "chain_integrity H (chain (blockchain n))"
  shows "chain (blockchain (snd (receive_block H t e b n))) \<noteq> [] \<and>
         chain_integrity H (chain (blockchain (snd (receive_block H t e b n))))"
proof (cases "hash b \<in> seen_block_hashes n")
  case True
  with assms show ?thesis by (simp add: receive_block_seen monitor_def)
next
  case False
  let ?b = "(Block H (index b) (previous_hash b) (transactions b) (timestamp b) (nonce b))
              \<lparr>hash := hash b\<rparr>"
  let ?n1 = "n\<lparr>seen_block_hashes := insert (hash b) (seen_block_hashes n)\<rparr>"
  from add_block_total [OF assms(1), of H ?b] obtain r bc
    where step: "add_block H ?b (blockchain n) = Inr (r, bc)" by blast
  from add_block_preserves [OF assms step]
  have bc: "chain bc \<noteq> []" "chain_integrity H (chain bc)" by simp_all
  show ?thesis
    using False step bc assms
    by (cases r) (auto simp: receive_block_def Let_def monitor_def split: option.splits)
qed

lemma node_chain_integrity:
  "chain (blockchain n) \<noteq> [] \<Longrightarrow> chain_integrity H (chain (blockchain n)) \<Longrightarrow>
   chain (blockchain (receive_blocks H bs n)) \<noteq> [] \<and>
   chain_integrity H (chain (blockchain (receive_blocks H bs n)))"
proof (induction bs arbitrary: n)
  case Nil
  then show ?case by simp
next
  case (Cons tb bs)
  obtain t e b where tb: "tb = (t, e, b)" by (cases tb)
  from receive_block_preserves [OF Cons.prems, of t e b]
  have "chain (blockchain (snd (receive_block H t e b n))) \<noteq> []"
    "chain_integrity H (chain (blockchain (snd (receive_block H t e b n))))" by simp_all
  from Cons.IH [OF this] show ?case by (simp add: tb)
qed

lemma fresh_node_chain_integrity:
  "chain_integrity H (chain (blockchain (receive_blocks H bs (Node H i mon priv pem))))"
  using node_chain_integrity [of "Node H i mon priv pem" H bs]
  by (simp add: Node_def genesis_chain chain_integrity_single)

end
